theory Spec2Isabelle
  imports Main "HOL-Library.Word"
begin

section \<open>Binary serialization of plan and parse trees (outfast.c)\<close>

text \<open>
  This theory embeds the binary tree serializer of \<^verbatim>\<open>src/backend/nodes/outfast.c\<close>:
  the field-writing macros, the list, bitmap-set and datum writers, the shared plan
  header \<^verbatim>\<open>_outPlanInfo\<close>, the variant writers defined in that file for the plan nodes
  Agg, Window, Sort, Unique, SetOp and Motion and for WindowKey, Flow, Const, Aggref,
  FuncExpr, BoolExpr, TypeCast, A_Const and Constraint, the dispatcher \<^verbatim>\<open>_outNode\<close>,
  the two functions that bracket the reduced (workfile) mode, and the driver
  \<^verbatim>\<open>nodeToBinaryStringFast\<close>. The switch of \<^verbatim>\<open>_outNode\<close> names further variants, most of
  them with a writer taken over from \<^verbatim>\<open>outfuncs.c\<close>; their writers have the same form and
  are left out, so that a tree is built from the variants above.

  The C code appends to a \<^verbatim>\<open>StringInfo\<close> and reads two file-level variables. Both are
  kept as explicit state that every writer receives and returns. \<^verbatim>\<open>elog(ERROR, ...)\<close>
  leaves the writer through a non-local exit; here a writer returns the error next to
  the state in which it was raised, and sequencing stops at the first error.

  Sizes are those of an LP64 host: \<^verbatim>\<open>int16\<close> 2 bytes, \<^verbatim>\<open>int\<close> and \<^verbatim>\<open>Oid\<close> 4 bytes,
  \<^verbatim>\<open>long\<close>, \<^verbatim>\<open>uint64\<close>, \<^verbatim>\<open>double\<close>, \<^verbatim>\<open>Size\<close> and \<^verbatim>\<open>Datum\<close> 8 bytes. The byte
  order of the host is a parameter.
\<close>

subsection \<open>Machine types\<close>

type_synonym byte = "8 word"
type_synonym int16 = "16 word"
type_synonym int32 = "32 word"
type_synonym Oid = "32 word"
type_synonym uint64 = "64 word"
type_synonym long = "64 word"
type_synonym float8 = "64 word"
type_synonym Size = "64 word"

text \<open>
  A \<^verbatim>\<open>double\<close> is carried as its 64-bit pattern: the serializer only copies it.
  A \<^verbatim>\<open>char *\<close> is \<open>None\<close> for \<^verbatim>\<open>NULL\<close> and otherwise the bytes in front of the
  terminating NUL, so that \<^verbatim>\<open>strlen\<close> is the length of the list. An array reached
  through a pointer (\<^verbatim>\<open>AttrNumber *\<close>, \<^verbatim>\<open>Oid *\<close>, the words of a bitmap set, the bytes
  behind a by-reference datum) is the function from index to element: the code reads
  as many elements as a separate count field says. A \<^verbatim>\<open>bitmapword\<close> has 4 bytes.
\<close>

type_synonym cstring = "byte list option"

definition strlen :: "byte list \<Rightarrow> nat" where
  "strlen s = length s"

datatype Datum = Datum (bits: uint64) (pointee: "nat \<Rightarrow> byte")

definition PointerIsValid :: "Datum \<Rightarrow> bool" where
  "PointerIsValid d \<longleftrightarrow> bits d \<noteq> 0"

datatype Bitmapset = Bitmapset (nwords: int32) (words: "nat \<Rightarrow> int32")

subsection \<open>Node tags, enumerations and errors\<close>

datatype NodeTag =
    T_List | T_IntList | T_OidList
  | T_Integer | T_Float | T_String | T_BitString | T_Null
  | T_Agg | T_WindowKey | T_Window | T_Sort | T_Unique | T_SetOp | T_Motion
  | T_Const | T_Aggref | T_FuncExpr | T_BoolExpr | T_Flow
  | T_TypeCast | T_A_Const | T_Constraint

datatype ConstrType =
    CONSTR_PRIMARY | CONSTR_UNIQUE | CONSTR_CHECK | CONSTR_DEFAULT
  | CONSTR_NOTNULL | CONSTR_NULL
  | CONSTR_ATTR_DEFERRABLE | CONSTR_ATTR_NOT_DEFERRABLE
  | CONSTR_ATTR_DEFERRED | CONSTR_ATTR_IMMEDIATE
  | CONSTR_other int32

text \<open>
  \<open>CONSTR_other v\<close> is a \<^verbatim>\<open>contype\<close> field holding a value \<open>v\<close> that none of the
  \<^verbatim>\<open>case\<close> labels of \<^verbatim>\<open>_outConstraint\<close> names. Every other enumeration field is only
  copied, and is carried as the \<^verbatim>\<open>int\<close> that holds it.
\<close>

datatype error =
    unrecognized_node_type int32
  | unrecognized_value_type int32
  | invalid_enlargement_request int32
  | datum_size_error int32
  | assertion_failed string

datatype warning = unknown_constraint

text \<open>
  \<open>unrecognized_node_type t\<close> is \<^verbatim>\<open>elog(ERROR, "could not serialize unrecognized node
  type: %d", t)\<close> of \<^verbatim>\<open>_outNode\<close>; \<open>unrecognized_value_type t\<close> is
  \<^verbatim>\<open>elog(ERROR, "unrecognized node type: %d", t)\<close> of \<^verbatim>\<open>_outValue\<close>;
  \<open>unknown_constraint\<close> is \<^verbatim>\<open>elog(WARNING, "serialization doesn't know what to do with
  this constraint")\<close> of \<^verbatim>\<open>_outConstraint\<close>.
\<close>

text \<open>
  The header files are not part of the sources at hand. What the serializer takes from
  them is a parameter: the byte order, the numbers of the \<^verbatim>\<open>NodeTag\<close> and
  \<^verbatim>\<open>ConstrType\<close> enumerators, and \<^verbatim>\<open>datumGetSize\<close> of \<^verbatim>\<open>utils/datum.c\<close>, which
  computes the size of a by-reference datum from its type length and may raise an error.
\<close>

record env =
  big_endian :: bool
  NodeTag_value :: "NodeTag \<Rightarrow> int32"
  ConstrType_value :: "ConstrType \<Rightarrow> int32"
  datumGetSize :: "Datum \<Rightarrow> bool \<Rightarrow> int32 \<Rightarrow> error + Size"

subsection \<open>The tree\<close>

text \<open>
  Each C struct is a datatype with the struct's field names as selectors. The type
  parameter stands for \<^verbatim>\<open>Node *\<close> (also \<^verbatim>\<open>List *\<close>, \<^verbatim>\<open>Expr *\<close>, \<^verbatim>\<open>Plan *\<close>,
  \<^verbatim>\<open>Flow *\<close>): in the tree it is a node, and in a writer it is the walker's action on
  that node. Only the fields that the serializer reads are listed. The two members of the
  struct \<^verbatim>\<open>directDispatch\<close> of a plan header are the fields \<open>isDirectDispatch\<close> and
  \<open>contentIds\<close>. A \<^verbatim>\<open>bool\<close> field is carried as its truth value, which is all that
  \<^verbatim>\<open>WRITE_BOOL_FIELD\<close> looks at.
\<close>

datatype Value =
    V_Integer long
  | V_Float cstring
  | V_String cstring
  | V_BitString cstring
  | V_Null
  | V_other int32

datatype 'n pg_list =
    List_of "'n list"
  | IntList_of "int32 list"
  | OidList_of "Oid list"

datatype 'n Plan = Plan
  (plan_node_id: int32)
  (plan_parent_node_id: int32)
  (startup_cost: float8)
  (total_cost: float8)
  (plan_rows: float8)
  (plan_width: int32)
  (targetlist: 'n)
  (qual: 'n)
  (extParam: "Bitmapset option")
  (allParam: "Bitmapset option")
  (nParamExec: int32)
  (flow: 'n)
  (dispatch: int32)
  (isDirectDispatch: bool)
  (contentIds: 'n)
  (nMotionNodes: int32)
  (nInitPlans: int32)
  (sliceTable: 'n)
  (lefttree: 'n)
  (righttree: 'n)
  (initPlan: 'n)
  (operatorMemKB: uint64)

datatype 'n Agg = Agg
  (plan: "'n Plan")
  (aggstrategy: int32)
  (numCols: int32)
  (grpColIdx: "nat \<Rightarrow> int16")
  (numGroups: long)
  (transSpace: int32)
  (numNullCols: int32)
  (inputGrouping: uint64)
  (grouping: uint64)
  (inputHasGrouping: bool)
  (rollupGSTimes: int32)
  (lastAgg: bool)
  (streaming: bool)

datatype 'n WindowKey = WindowKey
  (numSortCols: int32)
  (sortColIdx: "nat \<Rightarrow> int16")
  (sortOperators: "nat \<Rightarrow> Oid")
  (frame: 'n)

datatype 'n Window = Window
  (plan: "'n Plan")
  (numPartCols: int32)
  (partColIdx: "nat \<Rightarrow> int16")
  (windowKeys: 'n)

datatype 'n Sort = Sort
  (plan: "'n Plan")
  (numCols: int32)
  (sortColIdx: "nat \<Rightarrow> int16")
  (sortOperators: "nat \<Rightarrow> Oid")
  (limitOffset: 'n)
  (limitCount: 'n)
  (noduplicates: bool)
  (share_type: int32)
  (share_id: int32)
  (driver_slice: int32)
  (nsharer: int32)
  (nsharer_xslice: int32)

datatype 'n Unique = Unique
  (plan: "'n Plan")
  (numCols: int32)
  (uniqColIdx: "nat \<Rightarrow> int16")

datatype 'n SetOp = SetOp
  (plan: "'n Plan")
  (cmd: int32)
  (numCols: int32)
  (dupColIdx: "nat \<Rightarrow> int16")
  (flagColIdx: int32)

datatype 'n Motion = Motion
  (motionID: int32)
  (motionType: int32)
  (sendSorted: bool)
  (hashExpr: 'n)
  (hashDataTypes: 'n)
  (numOutputSegs: int32)
  (outputSegIdx: "nat \<Rightarrow> int32")
  (numSortCols: int32)
  (sortColIdx: "nat \<Rightarrow> int16")
  (sortOperators: "nat \<Rightarrow> Oid")
  (segidColIdx: int32)
  (plan: "'n Plan")

datatype Const = Const
  (consttype: Oid)
  (constlen: int32)
  (constbyval: bool)
  (constisnull: bool)
  (constvalue: Datum)

datatype 'n Aggref = Aggref
  (aggfnoid: Oid)
  (aggtype: Oid)
  (args: 'n)
  (agglevelsup: int32)
  (aggstar: bool)
  (aggdistinct: bool)
  (aggstage: int32)
  (aggorder: 'n)

datatype 'n FuncExpr = FuncExpr
  (funcid: Oid)
  (funcresulttype: Oid)
  (funcretset: bool)
  (funcformat: int32)
  (args: 'n)
  (is_tablefunc: bool)

datatype 'n BoolExpr = BoolExpr
  (boolop: int32)
  (args: 'n)

datatype 'n Flow = Flow
  (flotype: int32)
  (req_move: int32)
  (locustype: int32)
  (segindex: int32)
  (numSortCols: int32)
  (sortColIdx: "nat \<Rightarrow> int16")
  (sortOperators: "nat \<Rightarrow> Oid")
  (hashExpr: 'n)
  (flow_before_req_move: 'n)

datatype 'n TypeCast = TypeCast
  (arg: 'n)
  (typname: 'n)

datatype 'n A_Const = A_Const
  (val: Value)
  (typname: 'n)
  (location: int32)

datatype 'n Constraint = Constraint
  (name: cstring)
  (conoid: Oid)
  (contype: ConstrType)
  (keys: 'n)
  (options: 'n)
  (indexspace: cstring)
  (raw_expr: 'n)
  (cooked_expr: cstring)

text \<open>
  A reference is null, a list of one of the three kinds, a value leaf, one of the
  variants above, or a node whose tag none of the \<^verbatim>\<open>case\<close> labels of \<^verbatim>\<open>_outNode\<close>
  names (\<open>OtherNode\<close>, with the tag it carries).
\<close>

datatype node =
    NullPtr
  | ListNode "node pg_list"
  | ValueNode Value
  | AggNode "node Agg"
  | WindowKeyNode "node WindowKey"
  | WindowNode "node Window"
  | SortNode "node Sort"
  | UniqueNode "node Unique"
  | SetOpNode "node SetOp"
  | MotionNode "node Motion"
  | ConstNode Const
  | AggrefNode "node Aggref"
  | FuncExprNode "node FuncExpr"
  | BoolExprNode "node BoolExpr"
  | FlowNode "node Flow"
  | TypeCastNode "node TypeCast"
  | A_ConstNode "node A_Const"
  | ConstraintNode "node Constraint"
  | OtherNode int32

subsection \<open>Serializer state\<close>

text \<open>
  The two file-level variables of outfast.c, and the server log that
  \<^verbatim>\<open>elog(WARNING, ...)\<close> writes to.
\<close>

record globals =
  print_variable_fields :: bool
  range_table :: node
  server_log :: "warning list"

record outstate =
  str :: "byte list"
  glob :: globals

type_synonym action = "outstate \<Rightarrow> error option \<times> outstate"

definition put :: "byte list \<Rightarrow> action" where
  "put bs s = (None, s\<lparr>str := str s @ bs\<rparr>)"

definition elog_ERROR :: "error \<Rightarrow> action" where
  "elog_ERROR e s = (Some e, s)"

definition elog_WARNING :: "warning \<Rightarrow> action" where
  "elog_WARNING w s = (None, s\<lparr>glob := (glob s)\<lparr>server_log := server_log (glob s) @ [w]\<rparr>\<rparr>)"

definition skip :: action where
  "skip s = (None, s)"

definition seq :: "action \<Rightarrow> action \<Rightarrow> action" where
  "seq f g s = (case f s of (None, s') \<Rightarrow> g s' | (Some e, s') \<Rightarrow> (Some e, s'))"

text \<open>A compound statement: the statements run in order, up to the first error.\<close>

primrec block :: "action list \<Rightarrow> action" where
  "block [] = skip"
| "block (a # as) = seq a (block as)"

text \<open>\<^verbatim>\<open>if (print_variable_fields) { ... }\<close>\<close>

definition if_print_variable_fields :: "action \<Rightarrow> action" where
  "if_print_variable_fields a s = (if print_variable_fields (glob s) then a s else skip s)"

subsection \<open>Bytes of a value\<close>

text \<open>
  \<open>raw_bytes env n w\<close> is the in-memory representation of the \<open>n\<close>-byte value \<open>w\<close>,
  which \<^verbatim>\<open>appendBinaryStringInfo(str, (const char *) &w, n)\<close> copies.
\<close>

primrec le_bytes :: "nat \<Rightarrow> 'a::len word \<Rightarrow> byte list" where
  "le_bytes 0 w = []"
| "le_bytes (Suc n) w = ucast w # le_bytes n (drop_bit 8 w)"

definition raw_bytes :: "env \<Rightarrow> nat \<Rightarrow> 'a::len word \<Rightarrow> byte list" where
  "raw_bytes env n w = (if big_endian env then rev (le_bytes n w) else le_bytes n w)"

text \<open>
  Modelled from the spec: \<^verbatim>\<open>appendBinaryStringInfo\<close> of \<^verbatim>\<open>lib/stringinfo.c\<close> is not among
  the sources. It appends \<^verbatim>\<open>datalen\<close> bytes, read at \<^verbatim>\<open>data\<close>, to the growable output
  buffer; its \<^verbatim>\<open>datalen\<close> is a C \<^verbatim>\<open>int\<close>, and a negative request is an invariant
  violation, which is fatal. The buffer itself is not bounded here.
\<close>

definition appendBinaryStringInfo :: "(nat \<Rightarrow> byte) \<Rightarrow> int32 \<Rightarrow> action" where
  "appendBinaryStringInfo data datalen =
     (if datalen <s 0 then elog_ERROR (invalid_enlargement_request datalen)
      else put (map data [0 ..< nat (sint datalen)]))"

subsection \<open>The field macros\<close>

definition WRITE_NODE_TYPE :: "env \<Rightarrow> NodeTag \<Rightarrow> action" where
  "WRITE_NODE_TYPE env t = put (raw_bytes env 2 (ucast (NodeTag_value env t) :: int16))"

definition WRITE_INT_FIELD :: "env \<Rightarrow> int32 \<Rightarrow> action" where
  "WRITE_INT_FIELD env v = put (raw_bytes env 4 v)"

definition WRITE_UINT_FIELD :: "env \<Rightarrow> int32 \<Rightarrow> action" where
  "WRITE_UINT_FIELD env v = put (raw_bytes env 4 v)"

definition WRITE_UINT64_FIELD :: "env \<Rightarrow> uint64 \<Rightarrow> action" where
  "WRITE_UINT64_FIELD env v = put (raw_bytes env 8 v)"

definition WRITE_OID_FIELD :: "env \<Rightarrow> Oid \<Rightarrow> action" where
  "WRITE_OID_FIELD env v = put (raw_bytes env 4 v)"

definition WRITE_LONG_FIELD :: "env \<Rightarrow> long \<Rightarrow> action" where
  "WRITE_LONG_FIELD env v = put (raw_bytes env 8 v)"

definition WRITE_ENUM_FIELD :: "env \<Rightarrow> int32 \<Rightarrow> action" where
  "WRITE_ENUM_FIELD env v = put (raw_bytes env 2 (ucast v :: int16))"

definition WRITE_FLOAT_FIELD :: "env \<Rightarrow> float8 \<Rightarrow> action" where
  "WRITE_FLOAT_FIELD env v = put (raw_bytes env 8 v)"

definition WRITE_BOOL_FIELD :: "bool \<Rightarrow> action" where
  "WRITE_BOOL_FIELD v = put [if v then 1 else 0]"

text \<open>
  \<^verbatim>\<open>int slen = fld != NULL ? strlen(fld) : 0;\<close> then the four bytes of \<^verbatim>\<open>slen\<close>, then,
  \<^verbatim>\<open>if (slen > 0)\<close>, \<^verbatim>\<open>appendBinaryStringInfo(str, fld, strlen(fld))\<close>. Both conversions
  of the \<^verbatim>\<open>size_t\<close> to \<^verbatim>\<open>int\<close> keep the low 32 bits.
\<close>

definition WRITE_STRING_FIELD :: "env \<Rightarrow> cstring \<Rightarrow> action" where
  "WRITE_STRING_FIELD env fld =
     (let slen = (case fld of None \<Rightarrow> 0 | Some s \<Rightarrow> word_of_nat (strlen s)) :: int32
      in block
        [put (raw_bytes env 4 slen),
         if 0 <s slen
         then (case fld of None \<Rightarrow> skip
               | Some s \<Rightarrow> appendBinaryStringInfo (\<lambda>i. s ! i) (word_of_nat (strlen s)))
         else skip])"

definition WRITE_NODE_FIELD :: "action \<Rightarrow> action" where
  "WRITE_NODE_FIELD fld = fld"

text \<open>
  \<^verbatim>\<open>WRITE_INT_ARRAY(fld, count, Type)\<close> and \<^verbatim>\<open>WRITE_OID_ARRAY(fld, count)\<close>: when
  \<^verbatim>\<open>count > 0\<close>, the elements \<^verbatim>\<open>fld[0]\<close> to \<^verbatim>\<open>fld[count - 1]\<close>, each in
  \<^verbatim>\<open>sizeof(Type)\<close> bytes.
\<close>

definition WRITE_INT_ARRAY :: "env \<Rightarrow> nat \<Rightarrow> (nat \<Rightarrow> 'a::len word) \<Rightarrow> int32 \<Rightarrow> action" where
  "WRITE_INT_ARRAY env sizeof_Type fld count =
     (if 0 <s count
      then block (map (\<lambda>i. put (raw_bytes env sizeof_Type (fld i))) [0 ..< nat (sint count)])
      else skip)"

definition WRITE_OID_ARRAY :: "env \<Rightarrow> (nat \<Rightarrow> Oid) \<Rightarrow> int32 \<Rightarrow> action" where
  "WRITE_OID_ARRAY env fld count =
     (if 0 <s count
      then block (map (\<lambda>i. put (raw_bytes env 4 (fld i))) [0 ..< nat (sint count)])
      else skip)"

subsection \<open>Lists, bitmap sets and datums\<close>

text \<open>
  \<^verbatim>\<open>_outList\<close>. The argument is the \<^verbatim>\<open>List *\<close> (\<open>None\<close> for \<^verbatim>\<open>NULL\<close>) with every cell of
  a generic list already replaced by \<^verbatim>\<open>_outNode(str, lfirst(lc))\<close>. The length field of a
  list is the number of its cells.
\<close>

definition list_tag :: "'n pg_list \<Rightarrow> NodeTag" where
  "list_tag l = (case l of List_of _ \<Rightarrow> T_List | IntList_of _ \<Rightarrow> T_IntList | OidList_of _ \<Rightarrow> T_OidList)"

definition list_length :: "'n pg_list \<Rightarrow> int32" where
  "list_length l =
     (case l of List_of cs \<Rightarrow> word_of_nat (length cs)
      | IntList_of cs \<Rightarrow> word_of_nat (length cs)
      | OidList_of cs \<Rightarrow> word_of_nat (length cs))"

definition outList :: "env \<Rightarrow> action pg_list option \<Rightarrow> action" where
  "outList env node =
     (case node of
        None \<Rightarrow> put (raw_bytes env 2 (0 :: int16))
      | Some l \<Rightarrow>
          block
            [WRITE_NODE_TYPE env (list_tag l),
             WRITE_INT_FIELD env (list_length l),
             (case l of
                List_of cells \<Rightarrow> block (map (\<lambda>lc. lc) cells)
              | IntList_of cells \<Rightarrow> block (map (\<lambda>lc. put (raw_bytes env 4 lc)) cells)
              | OidList_of cells \<Rightarrow> block (map (\<lambda>lc. put (raw_bytes env 4 lc)) cells))])"

definition outBitmapset :: "env \<Rightarrow> Bitmapset option \<Rightarrow> action" where
  "outBitmapset env bms =
     (let nw = (case bms of None \<Rightarrow> 0 | Some b \<Rightarrow> nwords b) :: int32
      in block
        [put (raw_bytes env 4 nw),
         (case bms of None \<Rightarrow> skip
          | Some b \<Rightarrow> block (map (\<lambda>i. put (raw_bytes env 4 (words b i))) [0 ..< nat (sint nw)]))])"

definition WRITE_BITMAPSET_FIELD :: "env \<Rightarrow> Bitmapset option \<Rightarrow> action" where
  "WRITE_BITMAPSET_FIELD env fld = outBitmapset env fld"

text \<open>
  \<^verbatim>\<open>_outDatum\<close>. The \<^verbatim>\<open>Size\<close> that \<^verbatim>\<open>datumGetSize\<close> returns is passed to the \<^verbatim>\<open>int\<close>
  parameter of \<^verbatim>\<open>appendBinaryStringInfo\<close>, which keeps its low 32 bits.
\<close>

definition outDatum :: "env \<Rightarrow> Datum \<Rightarrow> int32 \<Rightarrow> bool \<Rightarrow> action" where
  "outDatum env value typlen typbyval =
     (if typbyval then put (raw_bytes env 8 (bits value))
      else if \<not> PointerIsValid value then put (raw_bytes env 8 (0 :: Size))
      else (case datumGetSize env value typbyval typlen of
              Inl e \<Rightarrow> elog_ERROR e
            | Inr len \<Rightarrow>
                block
                  [put (raw_bytes env 8 len),
                   appendBinaryStringInfo (pointee value) (ucast len)]))"

subsection \<open>The plan header and the variant writers\<close>

text \<open>
  In each writer \<open>node\<close> is the struct with the walker already applied to its \<^verbatim>\<open>Node *\<close>
  fields, so that \<^verbatim>\<open>WRITE_NODE_FIELD(fld)\<close>, which is \<^verbatim>\<open>_outNode(str, node->fld)\<close>, runs
  the action found in the field.
\<close>

definition outPlanInfo :: "env \<Rightarrow> action Plan \<Rightarrow> action" where
  "outPlanInfo env node =
     block
       [if_print_variable_fields
          (block
             [WRITE_INT_FIELD env (plan_node_id node),
              WRITE_INT_FIELD env (plan_parent_node_id node),
              WRITE_FLOAT_FIELD env (startup_cost node),
              WRITE_FLOAT_FIELD env (total_cost node),
              WRITE_FLOAT_FIELD env (plan_rows node),
              WRITE_INT_FIELD env (plan_width node)]),
        WRITE_NODE_FIELD (targetlist node),
        WRITE_NODE_FIELD (qual node),
        WRITE_BITMAPSET_FIELD env (extParam node),
        WRITE_BITMAPSET_FIELD env (allParam node),
        WRITE_INT_FIELD env (nParamExec node),
        if_print_variable_fields
          (block
             [WRITE_NODE_FIELD (flow node),
              WRITE_INT_FIELD env (dispatch node),
              WRITE_BOOL_FIELD (isDirectDispatch node),
              WRITE_NODE_FIELD (contentIds node),
              WRITE_INT_FIELD env (nMotionNodes node),
              WRITE_INT_FIELD env (nInitPlans node),
              WRITE_NODE_FIELD (sliceTable node)]),
        WRITE_NODE_FIELD (lefttree node),
        WRITE_NODE_FIELD (righttree node),
        WRITE_NODE_FIELD (initPlan node),
        if_print_variable_fields
          (block [WRITE_UINT64_FIELD env (operatorMemKB node)])]"

definition outAgg :: "env \<Rightarrow> action Agg \<Rightarrow> action" where
  "outAgg env node =
     block
       [WRITE_NODE_TYPE env T_Agg,
        outPlanInfo env (Agg.plan node),
        WRITE_ENUM_FIELD env (aggstrategy node),
        WRITE_INT_FIELD env (Agg.numCols node),
        WRITE_INT_ARRAY env 2 (grpColIdx node) (Agg.numCols node),
        if_print_variable_fields
          (block
             [WRITE_LONG_FIELD env (numGroups node),
              WRITE_INT_FIELD env (transSpace node)]),
        WRITE_INT_FIELD env (numNullCols node),
        WRITE_UINT64_FIELD env (inputGrouping node),
        WRITE_UINT64_FIELD env (grouping node),
        WRITE_BOOL_FIELD (inputHasGrouping node),
        WRITE_INT_FIELD env (rollupGSTimes node),
        WRITE_BOOL_FIELD (lastAgg node),
        WRITE_BOOL_FIELD (streaming node)]"

definition outWindowKey :: "env \<Rightarrow> action WindowKey \<Rightarrow> action" where
  "outWindowKey env node =
     block
       [WRITE_NODE_TYPE env T_WindowKey,
        WRITE_INT_FIELD env (WindowKey.numSortCols node),
        WRITE_INT_ARRAY env 2 (WindowKey.sortColIdx node) (WindowKey.numSortCols node),
        WRITE_OID_ARRAY env (WindowKey.sortOperators node) (WindowKey.numSortCols node),
        WRITE_NODE_FIELD (frame node)]"

definition outWindow :: "env \<Rightarrow> action Window \<Rightarrow> action" where
  "outWindow env node =
     block
       [WRITE_NODE_TYPE env T_Window,
        outPlanInfo env (Window.plan node),
        WRITE_INT_FIELD env (numPartCols node),
        WRITE_INT_ARRAY env 2 (partColIdx node) (numPartCols node),
        WRITE_NODE_FIELD (windowKeys node)]"

definition outSort :: "env \<Rightarrow> action Sort \<Rightarrow> action" where
  "outSort env node =
     block
       [WRITE_NODE_TYPE env T_Sort,
        outPlanInfo env (Sort.plan node),
        WRITE_INT_FIELD env (Sort.numCols node),
        WRITE_INT_ARRAY env 2 (Sort.sortColIdx node) (Sort.numCols node),
        WRITE_OID_ARRAY env (Sort.sortOperators node) (Sort.numCols node),
        WRITE_NODE_FIELD (limitOffset node),
        WRITE_NODE_FIELD (limitCount node),
        WRITE_BOOL_FIELD (noduplicates node),
        WRITE_ENUM_FIELD env (share_type node),
        WRITE_INT_FIELD env (share_id node),
        WRITE_INT_FIELD env (driver_slice node),
        WRITE_INT_FIELD env (nsharer node),
        WRITE_INT_FIELD env (nsharer_xslice node)]"

definition outUnique :: "env \<Rightarrow> action Unique \<Rightarrow> action" where
  "outUnique env node =
     block
       [WRITE_NODE_TYPE env T_Unique,
        outPlanInfo env (Unique.plan node),
        WRITE_INT_FIELD env (Unique.numCols node),
        WRITE_INT_ARRAY env 2 (uniqColIdx node) (Unique.numCols node)]"

definition outSetOp :: "env \<Rightarrow> action SetOp \<Rightarrow> action" where
  "outSetOp env node =
     block
       [WRITE_NODE_TYPE env T_SetOp,
        outPlanInfo env (SetOp.plan node),
        WRITE_ENUM_FIELD env (cmd node),
        WRITE_INT_FIELD env (SetOp.numCols node),
        WRITE_INT_ARRAY env 2 (dupColIdx node) (SetOp.numCols node),
        WRITE_INT_FIELD env (flagColIdx node)]"

definition outMotion :: "env \<Rightarrow> action Motion \<Rightarrow> action" where
  "outMotion env node =
     block
       [WRITE_NODE_TYPE env T_Motion,
        WRITE_INT_FIELD env (motionID node),
        WRITE_ENUM_FIELD env (motionType node),
        WRITE_BOOL_FIELD (sendSorted node),
        WRITE_NODE_FIELD (Motion.hashExpr node),
        WRITE_NODE_FIELD (hashDataTypes node),
        WRITE_INT_FIELD env (numOutputSegs node),
        WRITE_INT_ARRAY env 4 (outputSegIdx node) (numOutputSegs node),
        WRITE_INT_FIELD env (Motion.numSortCols node),
        WRITE_INT_ARRAY env 2 (Motion.sortColIdx node) (Motion.numSortCols node),
        WRITE_OID_ARRAY env (Motion.sortOperators node) (Motion.numSortCols node),
        WRITE_INT_FIELD env (segidColIdx node),
        outPlanInfo env (Motion.plan node)]"

definition outConst :: "env \<Rightarrow> Const \<Rightarrow> action" where
  "outConst env node =
     block
       [WRITE_NODE_TYPE env T_Const,
        WRITE_OID_FIELD env (consttype node),
        WRITE_INT_FIELD env (constlen node),
        WRITE_BOOL_FIELD (constbyval node),
        WRITE_BOOL_FIELD (constisnull node),
        if \<not> constisnull node
        then outDatum env (constvalue node) (constlen node) (constbyval node)
        else skip]"

definition outAggref :: "env \<Rightarrow> action Aggref \<Rightarrow> action" where
  "outAggref env node =
     block
       [WRITE_NODE_TYPE env T_Aggref,
        WRITE_OID_FIELD env (aggfnoid node),
        WRITE_OID_FIELD env (aggtype node),
        WRITE_NODE_FIELD (Aggref.args node),
        WRITE_UINT_FIELD env (agglevelsup node),
        WRITE_BOOL_FIELD (aggstar node),
        WRITE_BOOL_FIELD (aggdistinct node),
        WRITE_ENUM_FIELD env (aggstage node),
        WRITE_NODE_FIELD (aggorder node)]"

definition outFuncExpr :: "env \<Rightarrow> action FuncExpr \<Rightarrow> action" where
  "outFuncExpr env node =
     block
       [WRITE_NODE_TYPE env T_FuncExpr,
        WRITE_OID_FIELD env (funcid node),
        WRITE_OID_FIELD env (funcresulttype node),
        WRITE_BOOL_FIELD (funcretset node),
        WRITE_ENUM_FIELD env (funcformat node),
        WRITE_NODE_FIELD (FuncExpr.args node),
        WRITE_BOOL_FIELD (is_tablefunc node)]"

definition outBoolExpr :: "env \<Rightarrow> action BoolExpr \<Rightarrow> action" where
  "outBoolExpr env node =
     block
       [WRITE_NODE_TYPE env T_BoolExpr,
        WRITE_ENUM_FIELD env (boolop node),
        WRITE_NODE_FIELD (BoolExpr.args node)]"

definition outFlow :: "env \<Rightarrow> action Flow \<Rightarrow> action" where
  "outFlow env node =
     block
       [WRITE_NODE_TYPE env T_Flow,
        WRITE_ENUM_FIELD env (flotype node),
        WRITE_ENUM_FIELD env (req_move node),
        WRITE_ENUM_FIELD env (locustype node),
        WRITE_INT_FIELD env (segindex node),
        WRITE_INT_FIELD env (Flow.numSortCols node),
        WRITE_INT_ARRAY env 2 (Flow.sortColIdx node) (Flow.numSortCols node),
        WRITE_OID_ARRAY env (Flow.sortOperators node) (Flow.numSortCols node),
        WRITE_NODE_FIELD (Flow.hashExpr node),
        WRITE_NODE_FIELD (flow_before_req_move node)]"

definition outTypeCast :: "env \<Rightarrow> action TypeCast \<Rightarrow> action" where
  "outTypeCast env node =
     block
       [WRITE_NODE_TYPE env T_TypeCast,
        WRITE_NODE_FIELD (arg node),
        WRITE_NODE_FIELD (TypeCast.typname node)]"

text \<open>
  \<^verbatim>\<open>_outValue\<close>: the two bytes of \<^verbatim>\<open>value->type\<close> are written in front of the switch,
  also on the path that raises the error.
\<close>

definition Value_type :: "env \<Rightarrow> Value \<Rightarrow> int32" where
  "Value_type env v =
     (case v of
        V_Integer _ \<Rightarrow> NodeTag_value env T_Integer
      | V_Float _ \<Rightarrow> NodeTag_value env T_Float
      | V_String _ \<Rightarrow> NodeTag_value env T_String
      | V_BitString _ \<Rightarrow> NodeTag_value env T_BitString
      | V_Null \<Rightarrow> NodeTag_value env T_Null
      | V_other t \<Rightarrow> t)"

definition outValue_str :: "env \<Rightarrow> cstring \<Rightarrow> action" where
  "outValue_str env s =
     (let slen = (case s of None \<Rightarrow> 0 | Some bs \<Rightarrow> word_of_nat (strlen bs)) :: int32
      in block
        [put (raw_bytes env 4 slen),
         if 0 <s slen
         then (case s of None \<Rightarrow> skip | Some bs \<Rightarrow> appendBinaryStringInfo (\<lambda>i. bs ! i) slen)
         else skip])"

definition outValue :: "env \<Rightarrow> Value \<Rightarrow> action" where
  "outValue env v =
     block
       [put (raw_bytes env 2 (ucast (Value_type env v) :: int16)),
        (case v of
           V_Integer ival \<Rightarrow> put (raw_bytes env 8 ival)
         | V_Float s \<Rightarrow> outValue_str env s
         | V_String s \<Rightarrow> outValue_str env s
         | V_BitString s \<Rightarrow> outValue_str env s
         | V_Null \<Rightarrow> skip
         | V_other t \<Rightarrow> elog_ERROR (unrecognized_value_type t))]"

definition outAConst :: "env \<Rightarrow> action A_Const \<Rightarrow> action" where
  "outAConst env node =
     block
       [WRITE_NODE_TYPE env T_A_Const,
        outValue env (val node),
        WRITE_NODE_FIELD (A_Const.typname node),
        WRITE_INT_FIELD env (location node)]"

definition contype_value :: "env \<Rightarrow> ConstrType \<Rightarrow> int32" where
  "contype_value env c = (case c of CONSTR_other v \<Rightarrow> v | _ \<Rightarrow> ConstrType_value env c)"

definition outConstraint :: "env \<Rightarrow> action Constraint \<Rightarrow> action" where
  "outConstraint env node =
     block
       [WRITE_NODE_TYPE env T_Constraint,
        WRITE_STRING_FIELD env (name node),
        WRITE_OID_FIELD env (conoid node),
        WRITE_ENUM_FIELD env (contype_value env (contype node)),
        (case contype node of
           CONSTR_PRIMARY \<Rightarrow>
             block [WRITE_NODE_FIELD (keys node), WRITE_NODE_FIELD (options node),
                    WRITE_STRING_FIELD env (indexspace node)]
         | CONSTR_UNIQUE \<Rightarrow>
             block [WRITE_NODE_FIELD (keys node), WRITE_NODE_FIELD (options node),
                    WRITE_STRING_FIELD env (indexspace node)]
         | CONSTR_CHECK \<Rightarrow>
             block [WRITE_NODE_FIELD (raw_expr node), WRITE_STRING_FIELD env (cooked_expr node)]
         | CONSTR_DEFAULT \<Rightarrow>
             block [WRITE_NODE_FIELD (raw_expr node), WRITE_STRING_FIELD env (cooked_expr node)]
         | CONSTR_NOTNULL \<Rightarrow> skip
         | CONSTR_NULL \<Rightarrow> skip
         | CONSTR_ATTR_DEFERRABLE \<Rightarrow> skip
         | CONSTR_ATTR_NOT_DEFERRABLE \<Rightarrow> skip
         | CONSTR_ATTR_DEFERRED \<Rightarrow> skip
         | CONSTR_ATTR_IMMEDIATE \<Rightarrow> skip
         | CONSTR_other _ \<Rightarrow> elog_WARNING unknown_constraint)]"

subsection \<open>The walker\<close>

text \<open>
  \<^verbatim>\<open>_outNode\<close>: null, then the three list kinds, then the five value leaves, then the
  switch on the tag with its \<^verbatim>\<open>default\<close>. A value struct whose type is none of the five
  leaf kinds is a node with that tag, which here no \<^verbatim>\<open>case\<close> names.
\<close>

primrec outNode :: "env \<Rightarrow> node \<Rightarrow> action" where
  "outNode env NullPtr = put (raw_bytes env 2 (0 :: int16))"
| "outNode env (ListNode l) = outList env (Some (map_pg_list (outNode env) l))"
| "outNode env (ValueNode v) =
     (case v of V_other t \<Rightarrow> elog_ERROR (unrecognized_node_type t) | _ \<Rightarrow> outValue env v)"
| "outNode env (AggNode a) = outAgg env (map_Agg (outNode env) a)"
| "outNode env (WindowKeyNode a) = outWindowKey env (map_WindowKey (outNode env) a)"
| "outNode env (WindowNode a) = outWindow env (map_Window (outNode env) a)"
| "outNode env (SortNode a) = outSort env (map_Sort (outNode env) a)"
| "outNode env (UniqueNode a) = outUnique env (map_Unique (outNode env) a)"
| "outNode env (SetOpNode a) = outSetOp env (map_SetOp (outNode env) a)"
| "outNode env (MotionNode a) = outMotion env (map_Motion (outNode env) a)"
| "outNode env (ConstNode a) = outConst env a"
| "outNode env (AggrefNode a) = outAggref env (map_Aggref (outNode env) a)"
| "outNode env (FuncExprNode a) = outFuncExpr env (map_FuncExpr (outNode env) a)"
| "outNode env (BoolExprNode a) = outBoolExpr env (map_BoolExpr (outNode env) a)"
| "outNode env (FlowNode a) = outFlow env (map_Flow (outNode env) a)"
| "outNode env (TypeCastNode a) = outTypeCast env (map_TypeCast (outNode env) a)"
| "outNode env (A_ConstNode a) = outAConst env (map_A_Const (outNode env) a)"
| "outNode env (ConstraintNode a) = outConstraint env (map_Constraint (outNode env) a)"
| "outNode env (OtherNode t) = elog_ERROR (unrecognized_node_type t)"

subsection \<open>The mode bracket and the driver\<close>

text \<open>
  Modelled from the spec: the \<^verbatim>\<open>Assert\<close> macro of \<^verbatim>\<open>c.h\<close> is not among the sources.
  A failed assertion is fatal: the function does not return and the variables keep
  their values.
\<close>

definition outfast_workfile_mgr_init :: "node \<Rightarrow> globals \<Rightarrow> error + globals" where
  "outfast_workfile_mgr_init rtable g =
     (if range_table g \<noteq> NullPtr then Inl (assertion_failed ''NULL == range_table'')
      else if \<not> print_variable_fields g then Inl (assertion_failed ''print_variable_fields'')
      else Inr (g\<lparr>range_table := rtable, print_variable_fields := False\<rparr>))"

definition outfast_workfile_mgr_end :: "globals \<Rightarrow> error + globals" where
  "outfast_workfile_mgr_end g =
     (if print_variable_fields g then Inl (assertion_failed ''!print_variable_fields'')
      else Inr (g\<lparr>print_variable_fields := True, range_table := NullPtr\<rparr>))"

text \<open>
  \<^verbatim>\<open>nodeToBinaryStringFast\<close>: a fresh buffer, the walk of the root, the two bytes of
  \<^verbatim>\<open>(int16) 0xDEAD\<close>, and then \<^verbatim>\<open>str.data\<close> with \<^verbatim>\<open>str.len\<close>. When the walk raises an
  error the function does not return, and the caller gets no buffer.
\<close>

definition nodeToBinaryStringFast ::
    "env \<Rightarrow> node \<Rightarrow> globals \<Rightarrow> (error + byte list \<times> int) \<times> globals" where
  "nodeToBinaryStringFast env obj g =
     (case block [outNode env obj, put (raw_bytes env 2 (0xDEAD :: int16))]
             \<lparr>str = [], glob = g\<rparr> of
        (Some e, s) \<Rightarrow> (Inl e, glob s)
      | (None, s) \<Rightarrow> (Inr (str s, int (length (str s))), glob s))"

subsection \<open>What a writer appends\<close>

text \<open>
  A writer is started on an empty buffer and an empty log with the switch set to \<open>p\<close>:
  \<open>out_err\<close> is the error it raises, if any, \<open>out_bytes\<close> the bytes it has appended and
  \<open>out_log\<close> the warnings it has logged when it returns or raises.
\<close>

definition blank :: "bool \<Rightarrow> outstate" where
  "blank p = \<lparr>str = [], glob = \<lparr>print_variable_fields = p, range_table = NullPtr, server_log = []\<rparr>\<rparr>"

definition out_err :: "action \<Rightarrow> bool \<Rightarrow> error option" where
  "out_err f p = fst (f (blank p))"

definition out_bytes :: "action \<Rightarrow> bool \<Rightarrow> byte list" where
  "out_bytes f p = str (snd (f (blank p)))"

definition out_log :: "action \<Rightarrow> bool \<Rightarrow> warning list" where
  "out_log f p = server_log (glob (snd (f (blank p))))"

text \<open>
  \<open>ext s bs ws\<close> is the state \<open>s\<close> with \<open>bs\<close> appended to the buffer and \<open>ws\<close> to the log.
  An action is a \<open>writer\<close> when all it does is to extend the state in a way that depends
  on the switch only.
\<close>

definition ext :: "outstate \<Rightarrow> byte list \<Rightarrow> warning list \<Rightarrow> outstate" where
  "ext s bs ws = s\<lparr>str := str s @ bs, glob := (glob s)\<lparr>server_log := server_log (glob s) @ ws\<rparr>\<rparr>"

definition writer :: "action \<Rightarrow> bool" where
  "writer f \<longleftrightarrow>
     (\<exists>h. \<forall>s. f s = (case h (print_variable_fields (glob s)) of (r, bs, ws) \<Rightarrow> (r, ext s bs ws)))"

subsection \<open>Plan trees up to their variable fields\<close>









text \<open>
  The fixed-width fields among the variable ones, in the order of \<^verbatim>\<open>_outPlanInfo\<close>:
  \<^verbatim>\<open>plan_node_id\<close>, \<^verbatim>\<open>plan_parent_node_id\<close>, \<^verbatim>\<open>startup_cost\<close>, \<^verbatim>\<open>total_cost\<close>,
  \<^verbatim>\<open>plan_rows\<close>, \<^verbatim>\<open>plan_width\<close>, \<^verbatim>\<open>dispatch\<close>, \<^verbatim>\<open>directDispatch.isDirectDispatch\<close>,
  \<^verbatim>\<open>nMotionNodes\<close>, \<^verbatim>\<open>nInitPlans\<close> and \<^verbatim>\<open>operatorMemKB\<close>. \<open>with_scalars v n\<close> is the
  plan node \<open>n\<close> with these fields of its own header overwritten by \<open>v\<close>.
\<close>

type_synonym plan_scalars =
  "int32 \<times> int32 \<times> float8 \<times> float8 \<times> float8 \<times> int32 \<times> int32 \<times> bool \<times> int32 \<times> int32 \<times> uint64"

definition set_scalars :: "plan_scalars \<Rightarrow> 'n Plan \<Rightarrow> 'n Plan" where
  "set_scalars v p =
     (case v of (nid, pid, sc, tc, rows, width, disp, dd, nmot, ninit, mem) \<Rightarrow>
        Plan nid pid sc tc rows width (targetlist p) (qual p) (extParam p) (allParam p)
          (nParamExec p) (flow p) disp dd (contentIds p) nmot ninit (sliceTable p)
          (lefttree p) (righttree p) (initPlan p) mem)"



subsection \<open>Sample inputs\<close>

text \<open>
  A little-endian host with some numbering of the enumerators, and a \<^verbatim>\<open>datumGetSize\<close>
  that knows fixed-length by-reference types only.
\<close>

definition NodeTag_ex :: "NodeTag \<Rightarrow> int32" where
  "NodeTag_ex t =
     (case t of
        T_List \<Rightarrow> 600 | T_IntList \<Rightarrow> 601 | T_OidList \<Rightarrow> 602
      | T_Integer \<Rightarrow> 650 | T_Float \<Rightarrow> 651 | T_String \<Rightarrow> 652 | T_BitString \<Rightarrow> 653
      | T_Null \<Rightarrow> 654
      | T_Agg \<Rightarrow> 130 | T_WindowKey \<Rightarrow> 131 | T_Window \<Rightarrow> 132 | T_Sort \<Rightarrow> 127
      | T_Unique \<Rightarrow> 133 | T_SetOp \<Rightarrow> 135 | T_Motion \<Rightarrow> 137
      | T_Const \<Rightarrow> 305 | T_Aggref \<Rightarrow> 307 | T_FuncExpr \<Rightarrow> 310 | T_BoolExpr \<Rightarrow> 314
      | T_Flow \<Rightarrow> 150 | T_TypeCast \<Rightarrow> 910 | T_A_Const \<Rightarrow> 905 | T_Constraint \<Rightarrow> 920)"

definition ConstrType_ex :: "ConstrType \<Rightarrow> int32" where
  "ConstrType_ex c =
     (case c of
        CONSTR_NULL \<Rightarrow> 0 | CONSTR_NOTNULL \<Rightarrow> 1 | CONSTR_DEFAULT \<Rightarrow> 2 | CONSTR_CHECK \<Rightarrow> 3
      | CONSTR_PRIMARY \<Rightarrow> 5 | CONSTR_UNIQUE \<Rightarrow> 6
      | CONSTR_ATTR_DEFERRABLE \<Rightarrow> 7 | CONSTR_ATTR_NOT_DEFERRABLE \<Rightarrow> 8
      | CONSTR_ATTR_DEFERRED \<Rightarrow> 9 | CONSTR_ATTR_IMMEDIATE \<Rightarrow> 10
      | CONSTR_other v \<Rightarrow> v)"

definition datumGetSize_ex :: "Datum \<Rightarrow> bool \<Rightarrow> int32 \<Rightarrow> error + Size" where
  "datumGetSize_ex d typByVal typLen =
     (if 0 <s typLen then Inr (ucast typLen) else Inl (datum_size_error typLen))"

definition env_ex :: env where
  "env_ex = \<lparr>big_endian = False, NodeTag_value = NodeTag_ex,
             ConstrType_value = ConstrType_ex, datumGetSize = datumGetSize_ex\<rparr>"

definition full_mode :: globals where
  "full_mode = \<lparr>print_variable_fields = True, range_table = NullPtr, server_log = []\<rparr>"

definition reduced_mode :: globals where
  "reduced_mode =
     \<lparr>print_variable_fields = False, range_table = ListNode (List_of [NullPtr]), server_log = []\<rparr>"

definition null_const :: "uint64 \<Rightarrow> node" where
  "null_const v = ConstNode (Const 23 4 True True (Datum v (\<lambda>i. 0)))"

definition flow_ex :: "uint64 \<Rightarrow> node" where
  "flow_ex v =
     FlowNode (Flow 1 0 2 0 0 (\<lambda>i. 0) (\<lambda>i. 0) (ListNode (List_of [null_const v])) NullPtr)"

definition plan_ex :: "int32 \<Rightarrow> node \<Rightarrow> node \<Rightarrow> node Plan" where
  "plan_ex nid fl left =
     Plan nid 0 0x4024000000000000 0x4059000000000000 0x408F400000000000 8
       (ListNode (List_of [NullPtr])) NullPtr None (Some (Bitmapset 1 (\<lambda>i. 5))) 0
       fl 1 False (ListNode (IntList_of [0, 1])) 1 0 NullPtr
       left NullPtr NullPtr 1024"

definition sort_ex :: "int32 \<Rightarrow> node \<Rightarrow> node" where
  "sort_ex nid fl =
     SortNode (Sort (plan_ex nid fl NullPtr) 1 (\<lambda>i. 2) (\<lambda>i. 97) NullPtr NullPtr False 0 0 0 0 0)"

section \<open>Writers extend the state\<close>

lemma ext_simps [simp]:
  "str (ext s bs ws) = str s @ bs"
  "print_variable_fields (glob (ext s bs ws)) = print_variable_fields (glob s)"
  "range_table (glob (ext s bs ws)) = range_table (glob s)"
  "server_log (glob (ext s bs ws)) = server_log (glob s) @ ws"
  "ext (ext s bs ws) bs' ws' = ext s (bs @ bs') (ws @ ws')"
  "ext s [] [] = s"
  by (simp_all add: ext_def)

lemma writerI: "(\<And>s. f s = (case h (print_variable_fields (glob s)) of (r, bs, ws) \<Rightarrow> (r, ext s bs ws))) \<Longrightarrow> writer f"
  unfolding writer_def by blast

lemma writer_put [simp, intro!]: "writer (put bs)"
  by (rule writerI [where h = "\<lambda>p. (None, bs, [])"]) (simp add: put_def ext_def)

lemma writer_skip [simp, intro!]: "writer skip"
  by (rule writerI [where h = "\<lambda>p. (None, [], [])"]) (simp add: skip_def)

lemma writer_elog_ERROR [simp, intro!]: "writer (elog_ERROR e)"
  by (rule writerI [where h = "\<lambda>p. (Some e, [], [])"]) (simp add: elog_ERROR_def)

lemma writer_elog_WARNING [simp, intro!]: "writer (elog_WARNING w)"
  by (rule writerI [where h = "\<lambda>p. (None, [], [w])"]) (simp add: elog_WARNING_def ext_def)

lemma writer_seq [simp, intro!]:
  assumes "writer f" and "writer g"
  shows "writer (seq f g)"
proof -
  from assms obtain hf hg where
    f: "\<And>s. f s = (case hf (print_variable_fields (glob s)) of (r, bs, ws) \<Rightarrow> (r, ext s bs ws))" and
    g: "\<And>s. g s = (case hg (print_variable_fields (glob s)) of (r, bs, ws) \<Rightarrow> (r, ext s bs ws))"
    unfolding writer_def by blast
  let ?h = "\<lambda>p. case hf p of
                  (None, bs, ws) \<Rightarrow> (case hg p of (r, bs', ws') \<Rightarrow> (r, bs @ bs', ws @ ws'))
                | (Some e, bs, ws) \<Rightarrow> (Some e, bs, ws)"
  show ?thesis
    by (rule writerI [where h = ?h]) (simp add: seq_def f g split: prod.splits option.splits)
qed

lemma writer_block [intro!]: "(\<And>a. a \<in> set as \<Longrightarrow> writer a) \<Longrightarrow> writer (block as)"
  by (induction as) auto

lemma writer_if_pvf [simp, intro!]:
  assumes "writer a"
  shows "writer (if_print_variable_fields a)"
proof -
  from assms obtain h where
    a: "\<And>s. a s = (case h (print_variable_fields (glob s)) of (r, bs, ws) \<Rightarrow> (r, ext s bs ws))"
    unfolding writer_def by blast
  show ?thesis
    by (rule writerI [where h = "\<lambda>p. if p then h p else (None, [], [])"])
       (simp add: if_print_variable_fields_def a skip_def)
qed

lemma writer_if [intro!]: "writer a \<Longrightarrow> writer b \<Longrightarrow> writer (if c then a else b)"
  by simp

lemma writer_appendBinaryStringInfo [simp, intro!]: "writer (appendBinaryStringInfo d n)"
  by (simp add: appendBinaryStringInfo_def)

lemma writer_macros [simp, intro!]:
  "writer (WRITE_NODE_TYPE env t)"
  "writer (WRITE_INT_FIELD env v)"
  "writer (WRITE_UINT_FIELD env v)"
  "writer (WRITE_UINT64_FIELD env u)"
  "writer (WRITE_OID_FIELD env v)"
  "writer (WRITE_LONG_FIELD env u)"
  "writer (WRITE_ENUM_FIELD env v)"
  "writer (WRITE_FLOAT_FIELD env u)"
  "writer (WRITE_BOOL_FIELD b)"
  by (simp_all add: WRITE_NODE_TYPE_def WRITE_INT_FIELD_def WRITE_UINT_FIELD_def
      WRITE_UINT64_FIELD_def WRITE_OID_FIELD_def WRITE_LONG_FIELD_def WRITE_ENUM_FIELD_def
      WRITE_FLOAT_FIELD_def WRITE_BOOL_FIELD_def)

lemma writer_WRITE_STRING_FIELD [simp, intro!]: "writer (WRITE_STRING_FIELD env fld)"
  by (auto simp: WRITE_STRING_FIELD_def Let_def split: option.splits)

lemma writer_WRITE_INT_ARRAY [simp, intro!]: "writer (WRITE_INT_ARRAY env k fld n)"
  by (auto simp: WRITE_INT_ARRAY_def)

lemma writer_WRITE_OID_ARRAY [simp, intro!]: "writer (WRITE_OID_ARRAY env fld n)"
  by (auto simp: WRITE_OID_ARRAY_def)

lemma writer_outBitmapset [simp, intro!]: "writer (WRITE_BITMAPSET_FIELD env b)"
  by (auto simp: WRITE_BITMAPSET_FIELD_def outBitmapset_def Let_def split: option.splits)

lemma writer_outDatum [simp, intro!]: "writer (outDatum env v l b)"
  by (auto simp: outDatum_def split: sum.splits)

lemma writer_outValue_str [simp, intro!]: "writer (outValue_str env s)"
  by (auto simp: outValue_str_def Let_def split: option.splits)

lemma writer_outValue [simp, intro!]: "writer (outValue env v)"
  by (auto simp: outValue_def split: Value.splits)

lemma writer_outList: "(\<And>x. x \<in> set_pg_list l \<Longrightarrow> writer x) \<Longrightarrow> writer (outList env (Some l))"
  by (cases l) (auto simp: outList_def)

lemma writer_outList_None [simp]: "writer (outList env None)"
  by (simp add: outList_def)

lemma writer_outPlanInfo: "(\<And>x. x \<in> set_Plan p \<Longrightarrow> writer x) \<Longrightarrow> writer (outPlanInfo env p)"
  by (cases p) (auto simp: outPlanInfo_def WRITE_NODE_FIELD_def)

lemma writer_outAgg: "(\<And>x. x \<in> set_Agg a \<Longrightarrow> writer x) \<Longrightarrow> writer (outAgg env a)"
  by (cases a) (auto simp: outAgg_def WRITE_NODE_FIELD_def intro!: writer_outPlanInfo)

lemma writer_outMotion: "(\<And>x. x \<in> set_Motion a \<Longrightarrow> writer x) \<Longrightarrow> writer (outMotion env a)"
  by (cases a) (auto simp: outMotion_def WRITE_NODE_FIELD_def intro!: writer_outPlanInfo)

lemma writer_outConstraint: "(\<And>x. x \<in> set_Constraint a \<Longrightarrow> writer x) \<Longrightarrow> writer (outConstraint env a)"
  by (cases a) (auto simp: outConstraint_def WRITE_NODE_FIELD_def split: ConstrType.splits)


lemma writer_outWindowKey: "(\<And>x. x \<in> set_WindowKey a \<Longrightarrow> writer x) \<Longrightarrow> writer (outWindowKey env a)"
  by (cases a) (auto simp: outWindowKey_def WRITE_NODE_FIELD_def)

lemma writer_outWindow: "(\<And>x. x \<in> set_Window a \<Longrightarrow> writer x) \<Longrightarrow> writer (outWindow env a)"
  by (cases a) (auto simp: outWindow_def WRITE_NODE_FIELD_def intro!: writer_outPlanInfo)

lemma writer_outSort: "(\<And>x. x \<in> set_Sort a \<Longrightarrow> writer x) \<Longrightarrow> writer (outSort env a)"
  by (cases a) (auto simp: outSort_def WRITE_NODE_FIELD_def intro!: writer_outPlanInfo)

lemma writer_outUnique: "(\<And>x. x \<in> set_Unique a \<Longrightarrow> writer x) \<Longrightarrow> writer (outUnique env a)"
  by (cases a) (auto simp: outUnique_def WRITE_NODE_FIELD_def intro!: writer_outPlanInfo)

lemma writer_outSetOp: "(\<And>x. x \<in> set_SetOp a \<Longrightarrow> writer x) \<Longrightarrow> writer (outSetOp env a)"
  by (cases a) (auto simp: outSetOp_def WRITE_NODE_FIELD_def intro!: writer_outPlanInfo)

lemma writer_outConst [simp]: "writer (outConst env a)"
  by (auto simp: outConst_def)

lemma writer_outAggref: "(\<And>x. x \<in> set_Aggref a \<Longrightarrow> writer x) \<Longrightarrow> writer (outAggref env a)"
  by (cases a) (auto simp: outAggref_def WRITE_NODE_FIELD_def)

lemma writer_outFuncExpr: "(\<And>x. x \<in> set_FuncExpr a \<Longrightarrow> writer x) \<Longrightarrow> writer (outFuncExpr env a)"
  by (cases a) (auto simp: outFuncExpr_def WRITE_NODE_FIELD_def)

lemma writer_outBoolExpr: "(\<And>x. x \<in> set_BoolExpr a \<Longrightarrow> writer x) \<Longrightarrow> writer (outBoolExpr env a)"
  by (cases a) (auto simp: outBoolExpr_def WRITE_NODE_FIELD_def)

lemma writer_outFlow: "(\<And>x. x \<in> set_Flow a \<Longrightarrow> writer x) \<Longrightarrow> writer (outFlow env a)"
  by (cases a) (auto simp: outFlow_def WRITE_NODE_FIELD_def)

lemma writer_outTypeCast: "(\<And>x. x \<in> set_TypeCast a \<Longrightarrow> writer x) \<Longrightarrow> writer (outTypeCast env a)"
  by (cases a) (auto simp: outTypeCast_def WRITE_NODE_FIELD_def)

lemma writer_outAConst: "(\<And>x. x \<in> set_A_Const a \<Longrightarrow> writer x) \<Longrightarrow> writer (outAConst env a)"
  by (cases a) (auto simp: outAConst_def WRITE_NODE_FIELD_def)

lemma writer_outNode [simp]: "writer (outNode env n)"
proof (induction n)
  case (ListNode l)
  then show ?case by (auto intro!: writer_outList simp: pg_list.set_map)
next
  case (ValueNode v)
  then show ?case by (cases v) simp_all
next
  case (AggNode a)
  then show ?case by (auto intro!: writer_outAgg simp: Agg.set_map)
next
  case (WindowKeyNode a)
  then show ?case by (auto intro!: writer_outWindowKey simp: WindowKey.set_map)
next
  case (WindowNode a)
  then show ?case by (auto intro!: writer_outWindow simp: Window.set_map)
next
  case (SortNode a)
  then show ?case by (auto intro!: writer_outSort simp: Sort.set_map)
next
  case (UniqueNode a)
  then show ?case by (auto intro!: writer_outUnique simp: Unique.set_map)
next
  case (SetOpNode a)
  then show ?case by (auto intro!: writer_outSetOp simp: SetOp.set_map)
next
  case (MotionNode a)
  then show ?case by (auto intro!: writer_outMotion simp: Motion.set_map)
next
  case (AggrefNode a)
  then show ?case by (auto intro!: writer_outAggref simp: Aggref.set_map)
next
  case (FuncExprNode a)
  then show ?case by (auto intro!: writer_outFuncExpr simp: FuncExpr.set_map)
next
  case (BoolExprNode a)
  then show ?case by (auto intro!: writer_outBoolExpr simp: BoolExpr.set_map)
next
  case (FlowNode a)
  then show ?case by (auto intro!: writer_outFlow simp: Flow.set_map)
next
  case (TypeCastNode a)
  then show ?case by (auto intro!: writer_outTypeCast simp: TypeCast.set_map)
next
  case (A_ConstNode a)
  then show ?case by (auto intro!: writer_outAConst simp: A_Const.set_map)
next
  case (ConstraintNode a)
  then show ?case by (auto intro!: writer_outConstraint simp: Constraint.set_map)
qed simp_all

lemma blank_pvf [simp]: "print_variable_fields (glob (blank p)) = p"
  "str (blank p) = []" "server_log (glob (blank p)) = []"
  by (simp_all add: blank_def)

lemma writer_run:
  assumes "writer f"
  shows "f s = (out_err f (print_variable_fields (glob s)),
                ext s (out_bytes f (print_variable_fields (glob s)))
                      (out_log f (print_variable_fields (glob s))))"
proof -
  from assms obtain h where
    h: "\<And>s. f s = (case h (print_variable_fields (glob s)) of (r, bs, ws) \<Rightarrow> (r, ext s bs ws))"
    unfolding writer_def by blast
  have b: "f (blank p) = (case h p of (r, bs, ws) \<Rightarrow> (r, ext (blank p) bs ws))" for p
    by (simp add: h blank_def)
  show ?thesis
    by (simp add: h [of s] b out_err_def out_bytes_def out_log_def split: prod.splits)
qed



lemma out_put [simp]:
  "out_err (put bs) p = None" "out_bytes (put bs) p = bs" "out_log (put bs) p = []"
  by (simp_all add: out_err_def out_bytes_def out_log_def put_def blank_def)

lemma out_skip [simp]:
  "out_err skip p = None" "out_bytes skip p = []" "out_log skip p = []"
  by (simp_all add: out_err_def out_bytes_def out_log_def skip_def blank_def)

lemma out_elog_ERROR [simp]:
  "out_err (elog_ERROR e) p = Some e" "out_bytes (elog_ERROR e) p = []" "out_log (elog_ERROR e) p = []"
  by (simp_all add: out_err_def out_bytes_def out_log_def elog_ERROR_def blank_def)

lemma out_elog_WARNING [simp]:
  "out_err (elog_WARNING w) p = None" "out_bytes (elog_WARNING w) p = []" "out_log (elog_WARNING w) p = [w]"
  by (simp_all add: out_err_def out_bytes_def out_log_def elog_WARNING_def blank_def)

lemma out_seq:
  assumes "writer f" and "writer g"
  shows "out_err (seq f g) p = (case out_err f p of None \<Rightarrow> out_err g p | Some e \<Rightarrow> Some e)"
    and "out_bytes (seq f g) p = (case out_err f p of None \<Rightarrow> out_bytes f p @ out_bytes g p | Some e \<Rightarrow> out_bytes f p)"
    and "out_log (seq f g) p = (case out_err f p of None \<Rightarrow> out_log f p @ out_log g p | Some e \<Rightarrow> out_log f p)"
proof -
  have f: "f (blank p) = (out_err f p, ext (blank p) (out_bytes f p) (out_log f p))"
    using writer_run [OF assms(1), of "blank p"] by simp
  have g: "g s = (out_err g (print_variable_fields (glob s)),
                ext s (out_bytes g (print_variable_fields (glob s)))
                      (out_log g (print_variable_fields (glob s))))" for s
    by (rule writer_run [OF assms(2)])
  have s: "seq f g (blank p) =
      (case out_err f p of None \<Rightarrow> g (ext (blank p) (out_bytes f p) (out_log f p))
       | Some e \<Rightarrow> (Some e, ext (blank p) (out_bytes f p) (out_log f p)))"
    by (simp add: seq_def f split: option.splits)
  show "out_err (seq f g) p = (case out_err f p of None \<Rightarrow> out_err g p | Some e \<Rightarrow> Some e)"
    by (simp add: out_err_def [of "seq f g"] s g split: option.splits)
  show "out_bytes (seq f g) p = (case out_err f p of None \<Rightarrow> out_bytes f p @ out_bytes g p | Some e \<Rightarrow> out_bytes f p)"
    by (simp add: out_bytes_def [of "seq f g"] s g split: option.splits)
  show "out_log (seq f g) p = (case out_err f p of None \<Rightarrow> out_log f p @ out_log g p | Some e \<Rightarrow> out_log f p)"
    by (simp add: out_log_def [of "seq f g"] s g split: option.splits)
qed

lemma out_block_Nil [simp]:
  "out_err (block []) p = None" "out_bytes (block []) p = []" "out_log (block []) p = []"
  by simp_all

lemma out_if_pvf:
  assumes "writer a"
  shows "out_err (if_print_variable_fields a) p = (if p then out_err a p else None)"
    and "out_bytes (if_print_variable_fields a) p = (if p then out_bytes a p else [])"
    and "out_log (if_print_variable_fields a) p = (if p then out_log a p else [])"
  by (simp_all add: out_err_def out_bytes_def out_log_def if_print_variable_fields_def skip_def)

lemma out_err_block:
  assumes "\<And>x. x \<in> set as \<Longrightarrow> writer x"
  shows "out_err (block as) p = None \<longleftrightarrow> (\<forall>a\<in>set as. out_err a p = None)"
  using assms by (induction as) (auto simp: out_seq writer_block split: option.splits)

lemma out_bytes_block:
  assumes "\<And>x. x \<in> set as \<Longrightarrow> writer x" and "\<forall>a\<in>set as. out_err a p = None"
  shows "out_bytes (block as) p = concat (map (\<lambda>a. out_bytes a p) as)"
  using assms by (induction as) (auto simp: out_seq writer_block split: option.splits)

section \<open>Bytes, sample encodings and auxiliary facts\<close>

lemma le_bytes_2: "le_bytes 2 w = [ucast w, ucast (drop_bit 8 w)]"
  by (simp add: numeral_2_eq_2)

lemma length_le_bytes [simp]: "length (le_bytes n w) = n"
  by (induction n arbitrary: w) simp_all

lemma length_raw_bytes [simp]: "length (raw_bytes env n w) = n"
  by (simp add: raw_bytes_def)

lemma le_bytes_zero: "le_bytes n (0 :: 'a::len word) = replicate n 0"
  by (induction n) simp_all

lemma raw_bytes_zero [simp]: "raw_bytes env n (0 :: 'a::len word) = replicate n 0"
  by (simp add: raw_bytes_def le_bytes_zero)

lemma replicate_2: "replicate 2 x = [x, x]"
  by (simp add: numeral_2_eq_2)

lemma le_bytes_4: "le_bytes 4 w = [ucast w, ucast (drop_bit 8 w), ucast (drop_bit 16 w), ucast (drop_bit 24 w)]"
  by (simp add: eval_nat_numeral)

lemma le_bytes_8: "le_bytes 8 w = [ucast w, ucast (drop_bit 8 w), ucast (drop_bit 16 w), ucast (drop_bit 24 w),
    ucast (drop_bit 32 w), ucast (drop_bit 40 w), ucast (drop_bit 48 w), ucast (drop_bit 56 w)]"
  by (simp add: eval_nat_numeral)

lemma out_macros [simp]:
  "out_err (WRITE_NODE_TYPE env t) p = None"
  "out_bytes (WRITE_NODE_TYPE env t) p = raw_bytes env 2 (ucast (NodeTag_value env t) :: int16)"
  "out_log (WRITE_NODE_TYPE env t) p = []"
  "out_err (WRITE_INT_FIELD env v) p = None"
  "out_bytes (WRITE_INT_FIELD env v) p = raw_bytes env 4 v"
  "out_log (WRITE_INT_FIELD env v) p = []"
  "out_err (WRITE_UINT_FIELD env v) p = None"
  "out_bytes (WRITE_UINT_FIELD env v) p = raw_bytes env 4 v"
  "out_log (WRITE_UINT_FIELD env v) p = []"
  "out_err (WRITE_UINT64_FIELD env u) p = None"
  "out_bytes (WRITE_UINT64_FIELD env u) p = raw_bytes env 8 u"
  "out_log (WRITE_UINT64_FIELD env u) p = []"
  "out_err (WRITE_OID_FIELD env v) p = None"
  "out_bytes (WRITE_OID_FIELD env v) p = raw_bytes env 4 v"
  "out_log (WRITE_OID_FIELD env v) p = []"
  "out_err (WRITE_LONG_FIELD env u) p = None"
  "out_bytes (WRITE_LONG_FIELD env u) p = raw_bytes env 8 u"
  "out_log (WRITE_LONG_FIELD env u) p = []"
  "out_err (WRITE_ENUM_FIELD env v) p = None"
  "out_bytes (WRITE_ENUM_FIELD env v) p = raw_bytes env 2 (ucast v :: int16)"
  "out_log (WRITE_ENUM_FIELD env v) p = []"
  "out_err (WRITE_FLOAT_FIELD env u) p = None"
  "out_bytes (WRITE_FLOAT_FIELD env u) p = raw_bytes env 8 u"
  "out_log (WRITE_FLOAT_FIELD env u) p = []"
  "out_err (WRITE_BOOL_FIELD b) p = None"
  "out_bytes (WRITE_BOOL_FIELD b) p = [if b then 1 else 0]"
  "out_log (WRITE_BOOL_FIELD b) p = []"
  by (simp_all add: WRITE_NODE_TYPE_def WRITE_INT_FIELD_def WRITE_UINT_FIELD_def
      WRITE_UINT64_FIELD_def WRITE_OID_FIELD_def WRITE_LONG_FIELD_def WRITE_ENUM_FIELD_def
      WRITE_FLOAT_FIELD_def WRITE_BOOL_FIELD_def)

lemma writer_puts [simp]: "writer (block (map (\<lambda>x. put (f x)) xs))"
  by (rule writer_block) auto

lemma out_puts:
  "out_err (block (map (\<lambda>x. put (f x)) xs)) p = None"
  "out_bytes (block (map (\<lambda>x. put (f x)) xs)) p = concat (map f xs)"
  "out_log (block (map (\<lambda>x. put (f x)) xs)) p = []"
  by (induction xs) (simp_all add: out_seq)

lemma out_WRITE_INT_ARRAY [simp]:
  "out_err (WRITE_INT_ARRAY env k fld n) p = None"
  "out_bytes (WRITE_INT_ARRAY env k fld n) p =
     (if 0 <s n then concat (map (\<lambda>i. raw_bytes env k (fld i)) [0 ..< nat (sint n)]) else [])"
  "out_log (WRITE_INT_ARRAY env k fld n) p = []"
  by (simp_all add: WRITE_INT_ARRAY_def out_puts)

lemma out_WRITE_OID_ARRAY [simp]:
  "out_err (WRITE_OID_ARRAY env fld n) p = None"
  "out_bytes (WRITE_OID_ARRAY env fld n) p =
     (if 0 <s n then concat (map (\<lambda>i. raw_bytes env 4 (fld i)) [0 ..< nat (sint n)]) else [])"
  "out_log (WRITE_OID_ARRAY env fld n) p = []"
  by (simp_all add: WRITE_OID_ARRAY_def out_puts)

lemma out_outBitmapset [simp]:
  "out_err (WRITE_BITMAPSET_FIELD env b) p = None"
  "out_bytes (WRITE_BITMAPSET_FIELD env None) p = replicate 4 0"
  "out_bytes (WRITE_BITMAPSET_FIELD env (Some bm)) p =
      raw_bytes env 4 (nwords bm) @ concat (map (\<lambda>i. raw_bytes env 4 (words bm i)) [0 ..< nat (sint (nwords bm))])"
  "out_log (WRITE_BITMAPSET_FIELD env b) p = []"
  by (simp_all add: WRITE_BITMAPSET_FIELD_def outBitmapset_def Let_def out_seq out_puts split: option.splits)

lemma ntbsf_out:
  "nodeToBinaryStringFast env obj g =
     (case out_err (outNode env obj) (print_variable_fields g) of
        None \<Rightarrow> (Inr (out_bytes (outNode env obj) (print_variable_fields g) @ raw_bytes env 2 (0xDEAD :: int16),
                     int (length (out_bytes (outNode env obj) (print_variable_fields g))) + 2),
                 g\<lparr>server_log := server_log g @ out_log (outNode env obj) (print_variable_fields g)\<rparr>)
      | Some e \<Rightarrow> (Inl e, g\<lparr>server_log := server_log g @ out_log (outNode env obj) (print_variable_fields g)\<rparr>))"
  by (simp add: nodeToBinaryStringFast_def seq_def skip_def put_def
      writer_run [OF writer_outNode, of _ _ "\<lparr>str = [], glob = g\<rparr>"] ext_def split: option.splits)

lemma outNode_NullPtr [simp]:
  "out_err (outNode env NullPtr) p = None"
  "out_bytes (outNode env NullPtr) p = [0, 0]"
  "out_log (outNode env NullPtr) p = []"
  by (simp_all add: replicate_2)

lemma replicate_4: "replicate 4 x = [x, x, x, x]"
  by (simp add: eval_nat_numeral)

lemma replicate_8: "replicate 8 x = [x, x, x, x, x, x, x, x]"
  by (simp add: eval_nat_numeral)

lemma upt_4: "[0 ..< nat 1] = [0]" "[0..<nat 2] = [0, 1]"
  by (simp_all add: upt_rec)

lemma ex_full_any: "fst (nodeToBinaryStringFast env_ex (sort_ex 7 (flow_ex v)) full_mode) =
  Inr ([127, 0, 7, 0, 0, 0, 0, 0, 0, 0, 0, 0, 0, 0, 0, 0, 36, 64, 0, 0, 0, 0,
       0, 0, 89, 64, 0, 0, 0, 0, 0, 64, 143, 64, 8, 0, 0, 0, 88, 2, 1, 0, 0,
       0, 0, 0, 0, 0, 0, 0, 0, 0, 1, 0, 0, 0, 5, 0, 0, 0, 0, 0, 0, 0, 150,
       0, 1, 0, 0, 0, 2, 0, 0, 0, 0, 0, 0, 0, 0, 0, 88, 2, 1, 0, 0, 0, 49,
       1, 23, 0, 0, 0, 4, 0, 0, 0, 1, 1, 0, 0, 1, 0, 0, 0, 0, 89, 2, 2, 0,
       0, 0, 0, 0, 0, 0, 1, 0, 0, 0, 1, 0, 0, 0, 0, 0, 0, 0, 0, 0, 0, 0, 0,
       0, 0, 0, 0, 4, 0, 0, 0, 0, 0, 0, 1, 0, 0, 0, 2, 0, 97, 0, 0, 0, 0, 0,
       0, 0, 0, 0, 0, 0, 0, 0, 0, 0, 0, 0, 0, 0, 0, 0, 0, 0, 0, 0, 0, 173,
       222],
      178)"
  apply (simp add: ntbsf_out sort_ex_def plan_ex_def flow_ex_def null_const_def full_mode_def
      outSort_def outPlanInfo_def outFlow_def outConst_def outList_def WRITE_NODE_FIELD_def
      list_tag_def list_length_def out_seq out_if_pvf out_puts)
  apply (simp add: raw_bytes_def env_ex_def NodeTag_ex_def le_bytes_2 le_bytes_4 le_bytes_8 upt_4
      replicate_2 replicate_4 replicate_8 word_sless_alt)
  done

lemma ex_reduced: "fst (nodeToBinaryStringFast env_ex (sort_ex 7 (flow_ex 0)) reduced_mode) =
  Inr ([127, 0, 88, 2, 1, 0, 0, 0, 0, 0, 0, 0, 0, 0, 0, 0, 1, 0, 0, 0, 5, 0,
       0, 0, 0, 0, 0, 0, 0, 0, 0, 0, 0, 0, 1, 0, 0, 0, 2, 0, 97, 0, 0, 0, 0,
       0, 0, 0, 0, 0, 0, 0, 0, 0, 0, 0, 0, 0, 0, 0, 0, 0, 0, 0, 0, 0, 0,
       173, 222],
      69)"
  apply (simp add: ntbsf_out sort_ex_def plan_ex_def flow_ex_def null_const_def reduced_mode_def
      outSort_def outPlanInfo_def outFlow_def outConst_def outList_def WRITE_NODE_FIELD_def
      list_tag_def list_length_def out_seq out_if_pvf out_puts)
  apply (simp add: raw_bytes_def env_ex_def NodeTag_ex_def le_bytes_2 le_bytes_4 le_bytes_8 upt_4
      replicate_2 replicate_4 replicate_8 word_sless_alt)
  done

lemma writer_walks [simp]: "writer (block (map (outNode env) xs))"
  by (rule writer_block) auto

lemma out_log_block:
  assumes "\<And>x. x \<in> set as \<Longrightarrow> writer x" and "\<forall>a\<in>set as. out_err a p = None"
  shows "out_log (block as) p = concat (map (\<lambda>a. out_log a p) as)"
  using assms by (induction as) (auto simp: out_seq writer_block split: option.splits)

lemma out_List_of:
  "out_err (outNode env (ListNode (List_of xs))) p = out_err (block (map (outNode env) xs)) p"
  "out_bytes (outNode env (ListNode (List_of xs))) p =
     raw_bytes env 2 (ucast (NodeTag_value env T_List) :: int16)
       @ raw_bytes env 4 (word_of_nat (length xs) :: int32)
       @ out_bytes (block (map (outNode env) xs)) p"
  "out_log (outNode env (ListNode (List_of xs))) p = out_log (block (map (outNode env) xs)) p"
  by (simp_all add: outList_def out_seq list_tag_def list_length_def split: option.splits)


lemma run_ok:
  assumes "writer f" and "out_err f (print_variable_fields (glob s)) = None"
  shows "f s = (None, ext s (out_bytes f (print_variable_fields (glob s)))
                            (out_log f (print_variable_fields (glob s))))"
  using writer_run [OF assms(1), of s] assms(2) by simp

lemma sint_of_nat_small:
  assumes "n < 2 ^ 31"
  shows "sint (word_of_nat n :: int32) = int n"
proof -
  have "sint (word_of_nat n :: int32) = signed_take_bit 31 (int n)"
    by (simp add: signed_of_nat)
  also have "\<dots> = int n"
    using assms by (intro signed_take_bit_int_eq_self) simp_all
  finally show ?thesis .
qed

lemma sint_ucast_small:
  assumes "unat (len :: Size) < 2 ^ 31"
  shows "sint (ucast len :: int32) = int (unat len)"
  using sint_of_nat_small [OF assms] by simp

lemma le_bytes_bits:
  "le_bytes n v = le_bytes n w \<Longrightarrow> j < 8 * n \<Longrightarrow> bit v j = bit w j"
proof (induction n arbitrary: v w j)
  case 0
  then show ?case by simp
next
  case (Suc n)
  from Suc.prems(1) have h: "(ucast v :: byte) = ucast w"
    and t: "le_bytes n (drop_bit 8 v) = le_bytes n (drop_bit 8 w)"
    by simp_all
  show ?case
  proof (cases "j < 8")
    case True
    from h have "bit (ucast v :: byte) j = bit (ucast w :: byte) j" by simp
    with True show ?thesis by (simp add: bit_ucast_iff)
  next
    case False
    with Suc.prems(2) have "j - 8 < 8 * n" by simp
    from Suc.IH [OF t this] False show ?thesis
      by (simp add: bit_drop_bit_eq)
  qed
qed

lemma le_bytes_inj:
  fixes v w :: "'a::len word"
  assumes "le_bytes n v = le_bytes n w" and "LENGTH('a) \<le> 8 * n"
  shows "v = w"
proof (rule bit_word_eqI)
  fix j assume "j < LENGTH('a)"
  with assms(2) have "j < 8 * n" by simp
  from le_bytes_bits [OF assms(1) this] show "bit v j = bit w j" .
qed

lemma raw_bytes_inj:
  fixes v w :: "'a::len word"
  assumes "raw_bytes env n v = raw_bytes env n w" and "LENGTH('a) \<le> 8 * n"
  shows "v = w"
  using assms by (auto simp: raw_bytes_def intro: le_bytes_inj split: if_splits)

lemma out_WRITE_STRING_FIELD_ok [simp]:
  "out_err (WRITE_STRING_FIELD env fld) p = None"
  "out_log (WRITE_STRING_FIELD env fld) p = []"
  by (auto simp: WRITE_STRING_FIELD_def Let_def out_seq appendBinaryStringInfo_def
      split: option.splits)

lemma writer_walks' [simp]: "writer (block (map (\<lambda>x. outNode env (f x)) xs))"
  by (rule writer_block) auto






lemma raw_bytes_eq_iff [simp]:
  fixes v w :: "'a::len word"
  shows "LENGTH('a) \<le> 8 * n \<Longrightarrow> raw_bytes env n v = raw_bytes env n w \<longleftrightarrow> v = w"
  by (auto dest: raw_bytes_inj)

lemma bool_byte_eq [simp]: "((if a then 1 else 0 :: byte) = (if b then 1 else 0)) = (a = b)"
  by simp

lemma scalars_cases:
  obtains a1 a2 a3 a4 a5 a6 a7 a8 a9 a10 a11
  where "v = (a1, a2, a3, a4, a5, a6, a7, a8, a9, a10, a11)"
  by (cases v) auto

lemma set_scalars_tuple:
  "set_scalars (a1, a2, a3, a4, a5, a6, a7, a8, a9, a10, a11) p =
     Plan a1 a2 a3 a4 a5 a6 (targetlist p) (qual p) (extParam p) (allParam p)
          (nParamExec p) (flow p) a7 a8 (contentIds p) a9 a10 (sliceTable p)
          (lefttree p) (righttree p) (initPlan p) a11"
  by (simp add: set_scalars_def)


lemma set_Plan_set_scalars [simp]: "set_Plan (set_scalars v p) = set_Plan p"
  by (cases v rule: scalars_cases, cases p) (auto simp: set_scalars_tuple)






section \<open>Properties of the serializer\<close>






text \<open>
  Claim C3. A null list, like a null reference, is the two bytes of tag 0 and nothing else.
  A non-null list is its two-byte list tag, the four-byte count of its cells, and the cells
  in order: for an integer or identifier list the four raw bytes of each value, for a
  generic list the walker's encoding of each element (given that each element encodes
  without a fatal error).
\<close>

theorem list_encoding:
  "outList env None s = (None, s\<lparr>str := str s @ [0, 0]\<rparr>)
   \<and> outNode env NullPtr s = (None, s\<lparr>str := str s @ [0, 0]\<rparr>)
   \<and> outNode env (ListNode (IntList_of ns)) s =
        (None, s\<lparr>str := str s @ raw_bytes env 2 (ucast (NodeTag_value env T_IntList) :: int16)
                           @ raw_bytes env 4 (word_of_nat (length ns) :: int32)
                           @ concat (map (raw_bytes env 4) ns)\<rparr>)
   \<and> outNode env (ListNode (OidList_of ns)) s =
        (None, s\<lparr>str := str s @ raw_bytes env 2 (ucast (NodeTag_value env T_OidList) :: int16)
                           @ raw_bytes env 4 (word_of_nat (length ns) :: int32)
                           @ concat (map (raw_bytes env 4) ns)\<rparr>)
   \<and> outNode env (ListNode (List_of xs)) =
        block [WRITE_NODE_TYPE env T_List, WRITE_INT_FIELD env (word_of_nat (length xs)),
               block (map (outNode env) xs)]
   \<and> ((\<forall>x\<in>set xs. out_err (outNode env x) (print_variable_fields (glob s)) = None) \<longrightarrow>
        outNode env (ListNode (List_of xs)) s =
          (None, ext s (raw_bytes env 2 (ucast (NodeTag_value env T_List) :: int16)
                        @ raw_bytes env 4 (word_of_nat (length xs) :: int32)
                        @ concat (map (\<lambda>x. out_bytes (outNode env x) (print_variable_fields (glob s))) xs))
                       (concat (map (\<lambda>x. out_log (outNode env x) (print_variable_fields (glob s))) xs))))"
proof -
  let ?p = "print_variable_fields (glob s)"
  have n: "outList env None s = (None, s\<lparr>str := str s @ [0, 0]\<rparr>)"
    "outNode env NullPtr s = (None, s\<lparr>str := str s @ [0, 0]\<rparr>)"
    by (simp_all add: outList_def put_def replicate_2)
  have i: "outNode env (ListNode (IntList_of ns)) s =
        (None, s\<lparr>str := str s @ raw_bytes env 2 (ucast (NodeTag_value env T_IntList) :: int16)
                           @ raw_bytes env 4 (word_of_nat (length ns) :: int32)
                           @ concat (map (raw_bytes env 4) ns)\<rparr>)"
    by (subst run_ok)
       (simp_all add: outList_def out_seq out_puts list_tag_def list_length_def ext_def)
  have o: "outNode env (ListNode (OidList_of ns)) s =
        (None, s\<lparr>str := str s @ raw_bytes env 2 (ucast (NodeTag_value env T_OidList) :: int16)
                           @ raw_bytes env 4 (word_of_nat (length ns) :: int32)
                           @ concat (map (raw_bytes env 4) ns)\<rparr>)"
    by (subst run_ok)
       (simp_all add: outList_def out_seq out_puts list_tag_def list_length_def ext_def)
  have b: "outNode env (ListNode (List_of xs)) =
        block [WRITE_NODE_TYPE env T_List, WRITE_INT_FIELD env (word_of_nat (length xs)),
               block (map (outNode env) xs)]"
    by (simp add: outList_def list_tag_def list_length_def comp_def)
  have g: "outNode env (ListNode (List_of xs)) s =
          (None, ext s (raw_bytes env 2 (ucast (NodeTag_value env T_List) :: int16)
                        @ raw_bytes env 4 (word_of_nat (length xs) :: int32)
                        @ concat (map (\<lambda>x. out_bytes (outNode env x) ?p) xs))
                       (concat (map (\<lambda>x. out_log (outNode env x) ?p) xs)))"
    if ok: "\<forall>x\<in>set xs. out_err (outNode env x) ?p = None"
  proof -
    from ok have ok': "\<forall>a\<in>set (map (outNode env) xs). out_err a ?p = None"
      by simp
    have w: "\<And>x. x \<in> set (map (outNode env) xs) \<Longrightarrow> writer x"
      by auto
    have e: "out_err (outNode env (ListNode (List_of xs))) ?p = None"
      using ok' by (simp only: out_List_of out_err_block [OF w])
    have bb: "out_bytes (block (map (outNode env) xs)) ?p
        = concat (map (\<lambda>x. out_bytes (outNode env x) ?p) xs)"
      using out_bytes_block [OF w ok'] by (simp add: comp_def del: outNode.simps)
    have bl: "out_log (block (map (outNode env) xs)) ?p
        = concat (map (\<lambda>x. out_log (outNode env x) ?p) xs)"
      using out_log_block [OF w ok'] by (simp add: comp_def del: outNode.simps)
    show ?thesis
      by (subst run_ok [OF writer_outNode e]) (simp only: out_List_of bb bl)
  qed
  from n i o b g show ?thesis by blast
qed

theorem list_encoding_witness:
  "outNode env_ex (ListNode (List_of [NullPtr, ListNode (IntList_of [7, 258])])) (blank True) =
     (None, blank True \<lparr>str := [88, 2, 2, 0, 0, 0, 0, 0, 89, 2, 2, 0, 0, 0, 7, 0, 0, 0, 2, 1, 0, 0]\<rparr>)"
proof -
  let ?xs = "[NullPtr, ListNode (IntList_of [7, 258])]"
  have ok: "\<forall>x\<in>set ?xs. out_err (outNode env_ex x) (print_variable_fields (glob (blank True))) = None"
    by (simp add: outList_def out_seq out_puts)
  have i: "out_bytes (outNode env_ex (ListNode (IntList_of [7, 258]))) True
      = [89, 2, 2, 0, 0, 0, 7, 0, 0, 0, 2, 1, 0, 0]"
    using list_encoding [of env_ex "blank True" "[7, 258]" ?xs]
    by (simp add: out_bytes_def raw_bytes_def env_ex_def NodeTag_ex_def le_bytes_2 le_bytes_4
        del: outNode.simps)
  have l: "out_log (outNode env_ex (ListNode (IntList_of [7, 258]))) True = []"
    using list_encoding [of env_ex "blank True" "[7, 258]" ?xs]
    by (simp add: out_log_def del: outNode.simps)
  from list_encoding [of env_ex "blank True" "[7, 258]" ?xs] ok
  have "outNode env_ex (ListNode (List_of ?xs)) (blank True) =
          (None, ext (blank True) (raw_bytes env_ex 2 (ucast (NodeTag_value env_ex T_List) :: int16)
                        @ raw_bytes env_ex 4 (word_of_nat (length ?xs) :: int32)
                        @ concat (map (\<lambda>x. out_bytes (outNode env_ex x) (print_variable_fields (glob (blank True)))) ?xs))
                       (concat (map (\<lambda>x. out_log (outNode env_ex x) (print_variable_fields (glob (blank True)))) ?xs)))"
    by blast
  then have "outNode env_ex (ListNode (List_of ?xs)) (blank True) =
          (None, ext (blank True) (raw_bytes env_ex 2 (ucast (NodeTag_value env_ex T_List) :: int16)
                        @ raw_bytes env_ex 4 (2 :: int32)
                        @ [0, 0, 89, 2, 2, 0, 0, 0, 7, 0, 0, 0, 2, 1, 0, 0]) [])"
    by (simp add: i l del: outNode.simps)
  then show ?thesis
    by (simp add: ext_def blank_def raw_bytes_def le_bytes_2 le_bytes_4 env_ex_def NodeTag_ex_def
        del: outNode.simps)
qed

text \<open>
  Claim C4. Whenever the encode call returns a buffer, the last two bytes of the buffer
  are the bytes of \<^verbatim>\<open>(int16) 0xDEAD\<close>, and the returned length is the length of the
  buffer, sentinel included.
\<close>

theorem sentinel_last:
  assumes "nodeToBinaryStringFast env obj g = (Inr (buf, len), g')"
  shows "2 \<le> length buf \<and> drop (length buf - 2) buf = raw_bytes env 2 (0xDEAD :: int16)
         \<and> len = int (length buf)"
  using assms by (auto simp: ntbsf_out split: option.splits)

theorem sentinel_last_witness:
  "\<exists>buf. nodeToBinaryStringFast env_ex (sort_ex 7 (flow_ex 0)) full_mode
      = (Inr (buf, 178), snd (nodeToBinaryStringFast env_ex (sort_ex 7 (flow_ex 0)) full_mode))
   \<and> drop 176 buf = [0xAD, 0xDE] \<and> length buf = 178"
proof -
  let ?r = "nodeToBinaryStringFast env_ex (sort_ex 7 (flow_ex 0)) full_mode"
  obtain buf where b: "fst ?r = Inr (buf, 178)"
    using ex_full_any [of 0] by blast
  then have h: "?r = (Inr (buf, 178), snd ?r)"
    by (simp add: prod_eq_iff)
  have d: "drop (length buf - 2) buf = raw_bytes env_ex 2 (0xDEAD :: int16)"
    using sentinel_last [OF h] by blast
  have l: "length buf = 178"
    using sentinel_last [OF h] by simp
  from d have "drop 176 buf = [0xAD, 0xDE]"
    unfolding l by (simp add: raw_bytes_def env_ex_def le_bytes_2)
  with h l show ?thesis by blast
qed

text \<open>
  Claim C5. Encoding a null root returns four bytes, the two zero bytes of the null tag
  and the two bytes of the sentinel, and the length 4.
\<close>

theorem null_root:
  "nodeToBinaryStringFast env NullPtr g = (Inr ([0, 0] @ raw_bytes env 2 (0xDEAD :: int16), 4), g)"
  by (simp add: nodeToBinaryStringFast_def seq_def put_def skip_def replicate_2)

theorem null_root_witness:
  "nodeToBinaryStringFast env_ex NullPtr full_mode = (Inr ([0, 0, 0xAD, 0xDE], 4), full_mode)"
  using null_root [of env_ex full_mode]
  by (simp add: raw_bytes_def env_ex_def le_bytes_2)

text \<open>
  Claim C6. \<^verbatim>\<open>outfast_workfile_mgr_init\<close> fails an assertion when the switch is false or
  the table is set, and otherwise sets the table to the one supplied and the switch to
  false, so that a second call fails. \<^verbatim>\<open>outfast_workfile_mgr_end\<close> fails an assertion
  when the switch is true, and otherwise sets the switch to true and unsets the table, so
  that a second call fails.
\<close>

theorem mode_bracket_guards:
  "(\<not> print_variable_fields g \<or> range_table g \<noteq> NullPtr
      \<longrightarrow> (\<exists>m. outfast_workfile_mgr_init rtable g = Inl (assertion_failed m)))
   \<and> (print_variable_fields g \<and> range_table g = NullPtr
      \<longrightarrow> outfast_workfile_mgr_init rtable g
            = Inr (g\<lparr>range_table := rtable, print_variable_fields := False\<rparr>))
   \<and> (outfast_workfile_mgr_init rtable g = Inr g1
      \<longrightarrow> \<not> print_variable_fields g1 \<and> range_table g1 = rtable
          \<and> (\<exists>m. outfast_workfile_mgr_init rtable' g1 = Inl (assertion_failed m)))
   \<and> (print_variable_fields g
      \<longrightarrow> (\<exists>m. outfast_workfile_mgr_end g = Inl (assertion_failed m)))
   \<and> (outfast_workfile_mgr_end g = Inr g2
      \<longrightarrow> \<not> print_variable_fields g \<and> print_variable_fields g2 \<and> range_table g2 = NullPtr
          \<and> (\<exists>m. outfast_workfile_mgr_end g2 = Inl (assertion_failed m)))"
  by (auto simp: outfast_workfile_mgr_init_def outfast_workfile_mgr_end_def split: if_splits)

theorem mode_bracket_guards_witness:
  "outfast_workfile_mgr_init (ListNode (List_of [NullPtr])) full_mode = Inr reduced_mode
   \<and> (\<exists>m. outfast_workfile_mgr_init (ListNode (List_of [NullPtr])) reduced_mode = Inl (assertion_failed m))
   \<and> outfast_workfile_mgr_end reduced_mode = Inr full_mode
   \<and> (\<exists>m. outfast_workfile_mgr_end full_mode = Inl (assertion_failed m))"
proof -
  have i: "outfast_workfile_mgr_init (ListNode (List_of [NullPtr])) full_mode = Inr reduced_mode"
    and e: "outfast_workfile_mgr_end reduced_mode = Inr full_mode"
    by (simp_all add: outfast_workfile_mgr_init_def outfast_workfile_mgr_end_def
        full_mode_def reduced_mode_def)
  note g = mode_bracket_guards [of full_mode "ListNode (List_of [NullPtr])" reduced_mode
      "ListNode (List_of [NullPtr])" full_mode]
  note g' = mode_bracket_guards [of reduced_mode "ListNode (List_of [NullPtr])" reduced_mode
      "ListNode (List_of [NullPtr])" full_mode]
  from g i have "\<exists>m. outfast_workfile_mgr_init (ListNode (List_of [NullPtr])) reduced_mode = Inl (assertion_failed m)"
    by blast
  moreover from g' e have "\<exists>m. outfast_workfile_mgr_end full_mode = Inl (assertion_failed m)"
    by blast
  ultimately show ?thesis using i e by blast
qed

text \<open>
  Claim C7. A by-value datum is written as the eight bytes of the datum. A by-reference
  datum with a null pointer is written as a zero length of eight bytes. A by-reference
  datum with a non-null pointer, for which \<^verbatim>\<open>datumGetSize\<close> returns a length below
  \<open>2\<^sup>3\<^sup>1\<close>, is written as that length in eight bytes followed by that many bytes read at
  the pointer.
\<close>

theorem datum_encoding:
  "outDatum env v typlen True s = (None, s\<lparr>str := str s @ raw_bytes env 8 (bits v)\<rparr>)
   \<and> length (raw_bytes env 8 (bits v)) = 8
   \<and> (bits v = 0 \<longrightarrow>
        outDatum env v typlen False s = (None, s\<lparr>str := str s @ replicate 8 0\<rparr>))
   \<and> (bits v \<noteq> 0 \<and> datumGetSize env v False typlen = Inr len \<and> unat len < 2 ^ 31 \<longrightarrow>
        outDatum env v typlen False s =
          (None, s\<lparr>str := str s @ raw_bytes env 8 len @ map (pointee v) [0 ..< unat len]\<rparr>)
        \<and> length (raw_bytes env 8 len) = 8
        \<and> length (map (pointee v) [0 ..< unat len]) = unat len)"
proof -
  have r: "outDatum env v typlen False s =
          (None, s\<lparr>str := str s @ raw_bytes env 8 len @ map (pointee v) [0 ..< unat len]\<rparr>)"
    if "bits v \<noteq> 0" and "datumGetSize env v False typlen = Inr len" and "unat len < 2 ^ 31"
  proof -
    from that(3) have "sint (ucast len :: int32) = int (unat len)"
      by (rule sint_ucast_small)
    with that(1,2) show ?thesis
      by (simp add: outDatum_def PointerIsValid_def appendBinaryStringInfo_def word_sless_alt
          seq_def put_def skip_def)
  qed
  show ?thesis
    using r by (simp add: outDatum_def PointerIsValid_def put_def)
qed

theorem datum_encoding_witness:
  "outDatum env_ex (Datum 5 (\<lambda>i. 0)) 4 True (blank True)
      = (None, blank True\<lparr>str := [5, 0, 0, 0, 0, 0, 0, 0]\<rparr>)
   \<and> outDatum env_ex (Datum 0 (\<lambda>i. 0)) 3 False (blank True)
      = (None, blank True\<lparr>str := [0, 0, 0, 0, 0, 0, 0, 0]\<rparr>)
   \<and> outDatum env_ex (Datum 4096 (\<lambda>i. word_of_nat i + 65)) 3 False (blank True)
      = (None, blank True\<lparr>str := [3, 0, 0, 0, 0, 0, 0, 0, 65, 66, 67]\<rparr>)"
proof -
  have g: "datumGetSize env_ex (Datum 4096 (\<lambda>i. word_of_nat i + 65)) False 3 = Inr 3"
    by (simp add: env_ex_def datumGetSize_ex_def word_sless_alt)
  have u: "[0 ..< 3] = [0, 1, 2 :: nat]"
    by (simp add: upt_rec)
  from datum_encoding [of env_ex "Datum 5 (\<lambda>i. 0)" 4 "blank True" 3]
  have a: "outDatum env_ex (Datum 5 (\<lambda>i. 0)) 4 True (blank True)
      = (None, blank True\<lparr>str := [5, 0, 0, 0, 0, 0, 0, 0]\<rparr>)"
    by (simp add: raw_bytes_def env_ex_def le_bytes_8)
  from datum_encoding [of env_ex "Datum 0 (\<lambda>i. 0)" 3 "blank True" 3]
  have b: "outDatum env_ex (Datum 0 (\<lambda>i. 0)) 3 False (blank True)
      = (None, blank True\<lparr>str := [0, 0, 0, 0, 0, 0, 0, 0]\<rparr>)"
    by (simp add: replicate_8)
  from datum_encoding [of env_ex "Datum 4096 (\<lambda>i. word_of_nat i + 65)" 3 "blank True" 3] g
  have c: "outDatum env_ex (Datum 4096 (\<lambda>i. word_of_nat i + 65)) 3 False (blank True)
      = (None, blank True\<lparr>str := [3, 0, 0, 0, 0, 0, 0, 0, 65, 66, 67]\<rparr>)"
    by (simp add: u raw_bytes_def le_bytes_8) (simp add: env_ex_def)
  from a b c show ?thesis by blast
qed

text \<open>
  Claim C8. A null string and an empty string are both written as four zero bytes. A
  string of \<open>n\<close> bytes, \<open>0 < n < 2\<^sup>3\<^sup>1\<close>, is written as the four bytes of \<open>n\<close> followed by
  the \<open>n\<close> bytes, with no terminator.
\<close>

theorem string_field_encoding:
  "WRITE_STRING_FIELD env None s = (None, s\<lparr>str := str s @ [0, 0, 0, 0]\<rparr>)
   \<and> WRITE_STRING_FIELD env (Some []) s = (None, s\<lparr>str := str s @ [0, 0, 0, 0]\<rparr>)
   \<and> (0 < length bs \<and> length bs < 2 ^ 31 \<longrightarrow>
        WRITE_STRING_FIELD env (Some bs) s =
          (None, s\<lparr>str := str s @ raw_bytes env 4 (word_of_nat (length bs) :: int32) @ bs\<rparr>))"
proof -
  have r: "WRITE_STRING_FIELD env (Some bs) s =
          (None, s\<lparr>str := str s @ raw_bytes env 4 (word_of_nat (length bs) :: int32) @ bs\<rparr>)"
    if "0 < length bs" and "length bs < 2 ^ 31"
  proof -
    from that(2) have "sint (word_of_nat (length bs) :: int32) = int (length bs)"
      by (rule sint_of_nat_small)
    with that(1) show ?thesis
      by (simp add: WRITE_STRING_FIELD_def strlen_def appendBinaryStringInfo_def word_sless_alt
          seq_def put_def skip_def map_nth)
  qed
  show ?thesis
    using r by (simp add: WRITE_STRING_FIELD_def strlen_def seq_def put_def skip_def replicate_4)
qed

theorem string_field_encoding_witness:
  "WRITE_STRING_FIELD env_ex None (blank True) = (None, blank True\<lparr>str := [0, 0, 0, 0]\<rparr>)
   \<and> WRITE_STRING_FIELD env_ex (Some []) (blank True) = (None, blank True\<lparr>str := [0, 0, 0, 0]\<rparr>)
   \<and> WRITE_STRING_FIELD env_ex (Some [112, 107]) (blank True)
        = (None, blank True\<lparr>str := [2, 0, 0, 0, 112, 107]\<rparr>)"
  using string_field_encoding [of env_ex "blank True" "[112, 107]"]
  by (simp add: raw_bytes_def env_ex_def le_bytes_4)

text \<open>
  Claim C9. For a Constraint node whose \<^verbatim>\<open>contype\<close> matches no \<^verbatim>\<open>case\<close> label the writer
  emits the tag, \<^verbatim>\<open>name\<close>, \<^verbatim>\<open>conoid\<close> and \<^verbatim>\<open>contype\<close>, nothing else, logs one warning
  and raises no error; the encode call returns a buffer.
\<close>

theorem unknown_constraint_is_warning:
  assumes "contype c = CONSTR_other v"
  shows "outNode env (ConstraintNode c) s =
           block [WRITE_NODE_TYPE env T_Constraint, WRITE_STRING_FIELD env (name c),
                  WRITE_OID_FIELD env (conoid c), WRITE_ENUM_FIELD env v,
                  elog_WARNING unknown_constraint] s
         \<and> fst (outNode env (ConstraintNode c) s) = None
         \<and> str (snd (outNode env (ConstraintNode c) s)) =
             str s @ raw_bytes env 2 (ucast (NodeTag_value env T_Constraint) :: int16)
               @ out_bytes (WRITE_STRING_FIELD env (name c)) (print_variable_fields (glob s))
               @ raw_bytes env 4 (conoid c) @ raw_bytes env 2 (ucast v :: int16)
         \<and> server_log (glob (snd (outNode env (ConstraintNode c) s)))
             = server_log (glob s) @ [unknown_constraint]
         \<and> (\<exists>buf len. fst (nodeToBinaryStringFast env (ConstraintNode c) g) = Inr (buf, len))
         \<and> server_log (snd (nodeToBinaryStringFast env (ConstraintNode c) g))
             = server_log g @ [unknown_constraint]"
proof -
  let ?b = "block [WRITE_NODE_TYPE env T_Constraint, WRITE_STRING_FIELD env (name c),
                  WRITE_OID_FIELD env (conoid c), WRITE_ENUM_FIELD env v,
                  elog_WARNING unknown_constraint]"
  have b: "outNode env (ConstraintNode c) = ?b"
    using assms by (cases c) (simp add: outConstraint_def contype_value_def)
  have w: "writer ?b" by simp
  have o: "out_err ?b p = None"
    "out_bytes ?b p = raw_bytes env 2 (ucast (NodeTag_value env T_Constraint) :: int16)
               @ out_bytes (WRITE_STRING_FIELD env (name c)) p
               @ raw_bytes env 4 (conoid c) @ raw_bytes env 2 (ucast v :: int16)"
    "out_log ?b p = [unknown_constraint]" for p
    by (simp_all add: out_seq)
  show ?thesis
    unfolding ntbsf_out b by (simp add: writer_run [OF w] o del: block.simps)
qed

theorem unknown_constraint_is_warning_witness:
  "fst (outNode env_ex (ConstraintNode (Constraint (Some [102, 107]) 0 (CONSTR_other 4)
          (ListNode (List_of [NullPtr])) NullPtr None NullPtr None)) (blank True)) = None
   \<and> str (snd (outNode env_ex (ConstraintNode (Constraint (Some [102, 107]) 0 (CONSTR_other 4)
          (ListNode (List_of [NullPtr])) NullPtr None NullPtr None)) (blank True)))
       = [152, 3, 2, 0, 0, 0, 102, 107, 0, 0, 0, 0, 4, 0]
   \<and> server_log (glob (snd (outNode env_ex (ConstraintNode (Constraint (Some [102, 107]) 0
          (CONSTR_other 4) (ListNode (List_of [NullPtr])) NullPtr None NullPtr None)) (blank True))))
       = [unknown_constraint]"
proof -
  have s: "out_bytes (WRITE_STRING_FIELD env_ex (Some [102, 107])) True = [2, 0, 0, 0, 102, 107]"
    by (simp add: WRITE_STRING_FIELD_def strlen_def out_seq appendBinaryStringInfo_def
        word_sless_alt upt_rec raw_bytes_def env_ex_def le_bytes_4)
  have c: "contype (Constraint (Some [102, 107]) 0 (CONSTR_other 4)
          (ListNode (List_of [NullPtr])) NullPtr None NullPtr None) = CONSTR_other 4"
    by simp
  note u = unknown_constraint_is_warning [OF c, of env_ex "blank True" full_mode]
  have t: "raw_bytes env_ex 2 (ucast (NodeTag_value env_ex T_Constraint) :: int16) = [152, 3]"
    "raw_bytes env_ex 4 (0 :: Oid) = [0, 0, 0, 0]"
    "raw_bytes env_ex 2 (4 :: int16) = [4, 0]"
    by (simp_all add: raw_bytes_def env_ex_def NodeTag_ex_def le_bytes_2 le_bytes_4)
  let ?r = "outNode env_ex (ConstraintNode (Constraint (Some [102, 107]) 0 (CONSTR_other 4)
          (ListNode (List_of [NullPtr])) NullPtr None NullPtr None)) (blank True)"
  from u have a: "fst ?r = None" by blast
  from u have "str (snd ?r) = str (blank True)
       @ raw_bytes env_ex 2 (ucast (NodeTag_value env_ex T_Constraint) :: int16)
       @ out_bytes (WRITE_STRING_FIELD env_ex (name (Constraint (Some [102, 107]) 0 (CONSTR_other 4)
          (ListNode (List_of [NullPtr])) NullPtr None NullPtr None)))
           (print_variable_fields (glob (blank True)))
       @ raw_bytes env_ex 4 (conoid (Constraint (Some [102, 107]) 0 (CONSTR_other 4)
          (ListNode (List_of [NullPtr])) NullPtr None NullPtr None))
       @ raw_bytes env_ex 2 (ucast (4 :: int32) :: int16)"
    by blast
  then have b: "str (snd ?r) = [152, 3, 2, 0, 0, 0, 102, 107, 0, 0, 0, 0, 4, 0]"
    by (simp add: s t del: outNode.simps raw_bytes_zero)
  from u have "server_log (glob (snd ?r)) = server_log (glob (blank True)) @ [unknown_constraint]"
    by blast
  then have c: "server_log (glob (snd ?r)) = [unknown_constraint]"
    by (simp del: outNode.simps)
  from a b c show ?thesis by blast
qed



end
